theory Spec2Isabelle
  imports Complex_Main
begin

section \<open>MCP dispatcher: protocol version negotiation at initialize\<close>

text \<open>
  \<^verbatim>\<open>shared/mcp/dispatcher.ts\<close>. A JSON-RPC handler returns either \<open>{result}\<close> or
  \<open>{error: {code, message}}\<close>; the model uses a sum with the error on the left.
\<close>

record rpc_error =
  code :: int
  message :: string

definition LATEST_PROTOCOL_VERSION :: string where
  "LATEST_PROTOCOL_VERSION = ''2025-06-18''"

definition SUPPORTED_PROTOCOL_VERSIONS :: "string list" where
  "SUPPORTED_PROTOCOL_VERSIONS =
     [''2025-06-18'', ''2025-03-26'', ''2024-11-05'', ''2024-10-07'']"

record client_info =
  ci_name :: string
  ci_version :: string

text \<open>The fields of \<open>params\<close> that \<open>handleInitialize\<close> reads.\<close>

record initialize_params =
  clientInfo :: "client_info option"
  protocolVersion :: "string option"

record mcp_session_state =
  ss_initialized :: bool
  ss_clientInfo :: "client_info option"
  ss_protocolVersion :: "string option"

record mcp_server_config =
  cfg_title :: string
  cfg_version :: string
  cfg_instructions :: string

record initialize_result =
  res_protocolVersion :: string
  res_serverName :: string
  res_serverVersion :: string
  res_instructions :: string

text \<open>\<open>x || d\<close> on a possibly missing string: a missing or empty string is falsy.\<close>

definition or_else :: "string option \<Rightarrow> string \<Rightarrow> string" where
  "or_else x d = (case x of None \<Rightarrow> d | Some s \<Rightarrow> if s = [] then d else s)"

definition requestedVersion :: "initialize_params option \<Rightarrow> string" where
  "requestedVersion params =
     or_else (case params of None \<Rightarrow> None | Some p \<Rightarrow> protocolVersion p)
       LATEST_PROTOCOL_VERSION"

definition negotiate :: "string \<Rightarrow> string" where
  "negotiate requested =
     (if requested \<in> set SUPPORTED_PROTOCOL_VERSIONS then requested
      else LATEST_PROTOCOL_VERSION)"

text \<open>
  \<open>handleInitialize(params, ctx)\<close>: the session state passed to
  \<open>ctx.setSessionState\<close> is returned next to the JSON-RPC result. The two strings
  \<open>meta_title\<close> and \<open>meta_instructions\<close> stand for the server metadata constants of
  \<^verbatim>\<open>config/metadata.ts\<close>.
\<close>

definition handleInitialize ::
  "string \<Rightarrow> string \<Rightarrow> initialize_params option \<Rightarrow> mcp_server_config \<Rightarrow>
     mcp_session_state \<times> (rpc_error + initialize_result)" where
  "handleInitialize meta_title meta_instructions params config =
     (let ci = (case params of None \<Rightarrow> None | Some p \<Rightarrow> clientInfo p);
          pv = negotiate (requestedVersion params)
      in (\<lparr>ss_initialized = False, ss_clientInfo = ci, ss_protocolVersion = Some pv\<rparr>,
          Inr \<lparr>res_protocolVersion = pv,
               res_serverName = or_else (Some (cfg_title config)) meta_title,
               res_serverVersion = or_else (Some (cfg_version config)) ''1.0.0'',
               res_instructions = or_else (Some (cfg_instructions config)) meta_instructions\<rparr>))"

section \<open>Pagination cursors\<close>

text \<open>
  \<^verbatim>\<open>shared/utils/pagination.ts\<close>. The cursor is the base64 text of the JSON document
  \<open>{offset}\<close>. Base64 and JSON are the platform's (\<open>Buffer\<close>, \<open>JSON\<close>): the
  decoder \<open>dec\<close> stands for \<open>JSON.parse(Buffer.from(cursor, "base64").toString("utf-8"))\<close>
  and yields \<open>None\<close> where \<open>JSON.parse\<close> throws a SyntaxError; the encoder \<open>enc\<close>
  stands for \<open>Buffer.from(JSON.stringify(v)).toString("base64")\<close>. An object holds one
  binding per key.
\<close>

datatype json =
    JNull
  | JBool bool
  | JNum rat
  | JStr string
  | JArr "json list"
  | JObj "(string \<times> json) list"

datatype js_error = SyntaxError | TypeError

definition createCursor :: "(json \<Rightarrow> string) \<Rightarrow> rat \<Rightarrow> string" where
  "createCursor enc offset = enc (JObj [(''offset'', JNum offset)])"

text \<open>
  The body of the \<open>try\<close> block: reading \<open>.offset\<close> of \<open>null\<close> throws a TypeError,
  reading it of any other non-object value gives \<open>undefined\<close>.
\<close>

definition parseCursor_try :: "(string \<Rightarrow> json option) \<Rightarrow> string \<Rightarrow> js_error + rat" where
  "parseCursor_try dec cursor =
     (case dec cursor of
        None \<Rightarrow> Inl SyntaxError
      | Some JNull \<Rightarrow> Inl TypeError
      | Some (JObj fs) \<Rightarrow>
          (case map_of fs ''offset'' of
             Some (JNum n) \<Rightarrow> Inr n
           | _ \<Rightarrow> Inr 0)
      | Some _ \<Rightarrow> Inr 0)"

definition parseCursor :: "(string \<Rightarrow> json option) \<Rightarrow> string option \<Rightarrow> js_error + rat" where
  "parseCursor dec cursor =
     (case cursor of
        None \<Rightarrow> Inr 0
      | Some c \<Rightarrow>
          if c = [] then Inr 0
          else (case parseCursor_try dec c of
                  Inl e \<Rightarrow> Inr 0
                | Inr n \<Rightarrow> Inr n))"

record 'a page =
  data :: "'a list"
  nextCursor :: "string option"

text \<open>
  \<open>items.slice(start, end)\<close> for \<open>0 \<le> start \<le> end\<close>: both bounds are truncated to
  integers and clamped to the length.
\<close>

definition slice :: "'a list \<Rightarrow> rat \<Rightarrow> rat \<Rightarrow> 'a list" where
  "slice items s e = take (nat \<lfloor>e\<rfloor> - nat \<lfloor>s\<rfloor>) (drop (nat \<lfloor>s\<rfloor>) items)"

definition paginateArray ::
  "(string \<Rightarrow> json option) \<Rightarrow> (json \<Rightarrow> string) \<Rightarrow> 'a list \<Rightarrow> string option \<Rightarrow> nat \<Rightarrow>
     js_error + 'a page" where
  "paginateArray dec enc items cursor limit =
     (case parseCursor dec cursor of
        Inl e \<Rightarrow> Inl e
      | Inr offset \<Rightarrow>
          (let startIndex = max 0 offset;
               endIndex = startIndex + of_nat limit
           in Inr \<lparr>data = slice items startIndex endIndex,
                   nextCursor = (if endIndex < of_nat (length items)
                                 then Some (createCursor enc endIndex) else None)\<rparr>))"

text \<open>A cursor is well formed when it decodes to an object with a numeric \<open>offset\<close>.\<close>

definition numeric_offset :: "(string \<Rightarrow> json option) \<Rightarrow> string option \<Rightarrow> bool" where
  "numeric_offset dec cursor =
     (case cursor of
        None \<Rightarrow> False
      | Some c \<Rightarrow>
          (case dec c of
             Some (JObj fs) \<Rightarrow>
               (case map_of fs ''offset'' of Some (JNum n) \<Rightarrow> True | _ \<Rightarrow> False)
           | _ \<Rightarrow> False))"

text \<open>A decoder for examples: it knows the base64 text of \<open>null\<close> and of \<open>{"offset":2}\<close>.\<close>

definition dec_example :: "string \<Rightarrow> json option" where
  "dec_example s =
     (if s = ''bnVsbA=='' then Some JNull
      else if s = ''eyJvZmZzZXQiOjJ9'' then Some (JObj [(''offset'', JNum 2)])
      else None)"

definition enc_example :: "json \<Rightarrow> string" where
  "enc_example v = (if v = JObj [(''offset'', JNum 2)] then ''eyJvZmZzZXQiOjJ9'' else ''?'')"

section \<open>Insertion-ordered maps\<close>

text \<open>
  A JavaScript \<open>Map\<close> iterates in insertion order; \<open>set\<close> on a key that is present
  replaces the value in place, on a new key it appends. The stores of
  \<^verbatim>\<open>shared/storage/memory.ts\<close> are association lists read with \<open>jm_get\<close>.
\<close>

definition jm_get :: "('k \<times> 'v) list \<Rightarrow> 'k \<Rightarrow> 'v option" where
  "jm_get m k = map_of m k"

fun jm_set :: "'k \<Rightarrow> 'v \<Rightarrow> ('k \<times> 'v) list \<Rightarrow> ('k \<times> 'v) list" where
  "jm_set k v [] = [(k, v)]"
| "jm_set k v (e # m) = (if fst e = k then (k, v) # m else e # jm_set k v m)"

definition jm_delete :: "'k \<Rightarrow> ('k \<times> 'v) list \<Rightarrow> ('k \<times> 'v) list" where
  "jm_delete k m = filter (\<lambda>e. fst e \<noteq> k) m"

section \<open>Storage records\<close>

text \<open>\<^verbatim>\<open>shared/storage/interface.ts\<close>. Times are epoch milliseconds.\<close>

record provider_tokens =
  access_token :: string
  refresh_token :: "string option"
  expires_at :: "int option"
  scopes :: "string list option"

record transaction =
  codeChallenge :: string
  state :: "string option"
  scope :: "string option"
  createdAt :: int
  sid :: "string option"
  provider :: "provider_tokens option"

definition MAX_SESSIONS_PER_API_KEY :: nat where
  "MAX_SESSIONS_PER_API_KEY = 5"

definition DEFAULT_TXN_TTL_MS :: int where
  "DEFAULT_TXN_TTL_MS = 10 * 60 * 1000"

definition DEFAULT_CODE_TTL_MS :: int where
  "DEFAULT_CODE_TTL_MS = 10 * 60 * 1000"

definition DEFAULT_SESSION_TTL_MS :: int where
  "DEFAULT_SESSION_TTL_MS = 24 * 60 * 60 * 1000"

definition DEFAULT_RS_TOKEN_TTL_MS :: int where
  "DEFAULT_RS_TOKEN_TTL_MS = 7 * 24 * 60 * 60 * 1000"

definition MAX_RS_RECORDS :: nat where
  "MAX_RS_RECORDS = 10000"

definition MAX_TRANSACTIONS :: nat where
  "MAX_TRANSACTIONS = 1000"

definition MAX_SESSIONS :: nat where
  "MAX_SESSIONS = 10000"

section \<open>The in-memory session store\<close>

text \<open>
  \<open>MemorySessionStore\<close>. An \<open>InternalSession\<close> is a \<open>SessionRecord\<close> with its
  \<open>sessionId\<close> and \<open>expiresAt\<close>. Every operation reads the clock once; the reading is
  the argument \<open>now\<close>.
\<close>

record session =
  sessionId :: string
  apiKey :: "string option"
  s_rs_access_token :: "string option"
  s_rs_refresh_token :: "string option"
  s_provider :: "provider_tokens option"
  s_created_at :: int
  last_accessed :: int
  initialized :: "bool option"
  s_protocolVersion :: "string option"
  expiresAt :: int

text \<open>
  A \<open>SessionRecord\<close> as \<open>put\<close> receives it, and a \<open>Partial<SessionRecord>\<close> as
  \<open>update\<close> receives it (\<open>None\<close>: the field is not in the patch).
\<close>

record session_record =
  v_apiKey :: "string option"
  v_rs_access_token :: "string option"
  v_rs_refresh_token :: "string option"
  v_provider :: "provider_tokens option"
  v_created_at :: int
  v_last_accessed :: "int option"
  v_initialized :: "bool option"
  v_protocolVersion :: "string option"

record session_patch =
  p_apiKey :: "string option"
  p_rs_access_token :: "string option"
  p_rs_refresh_token :: "string option"
  p_provider :: "provider_tokens option"
  p_created_at :: "int option"
  p_initialized :: "bool option"
  p_protocolVersion :: "string option"

type_synonym sessions = "(string \<times> session) list"

definition live_for :: "string \<Rightarrow> int \<Rightarrow> session \<Rightarrow> bool" where
  "live_for k now x = (apiKey x = Some k \<and> now < expiresAt x)"

definition countByApiKey :: "sessions \<Rightarrow> string \<Rightarrow> int \<Rightarrow> nat" where
  "countByApiKey ss k now = length (filter (live_for k now) (map snd ss))"

text \<open>The loop of \<open>deleteOldestByApiKey\<close>: the first live session with the least \<open>last_accessed\<close>.\<close>

definition oldest_step :: "string \<Rightarrow> int \<Rightarrow> session option \<Rightarrow> session \<Rightarrow> session option" where
  "oldest_step k now oldest x =
     (if live_for k now x then
        (case oldest of
           None \<Rightarrow> Some x
         | Some old \<Rightarrow> if last_accessed x < last_accessed old then Some x else Some old)
      else oldest)"

definition find_oldest :: "sessions \<Rightarrow> string \<Rightarrow> int \<Rightarrow> session option" where
  "find_oldest ss k now = foldl (oldest_step k now) None (map snd ss)"

definition deleteOldestByApiKey :: "sessions \<Rightarrow> string \<Rightarrow> int \<Rightarrow> sessions" where
  "deleteOldestByApiKey ss k now =
     (case find_oldest ss k now of
        None \<Rightarrow> ss
      | Some old \<Rightarrow> jm_delete (sessionId old) ss)"

text \<open>
  The global cap: at \<open>MAX_SESSIONS\<close> entries the first entry of the stable sort by
  \<open>created_at\<close> is deleted.
\<close>

definition evict_oldest_session :: "sessions \<Rightarrow> sessions" where
  "evict_oldest_session ss =
     (if length ss \<ge> MAX_SESSIONS then
        (case sort_key (\<lambda>e. s_created_at (snd e)) ss of
           [] \<Rightarrow> ss
         | e # _ \<Rightarrow> jm_delete (fst e) ss)
      else ss)"

definition create :: "sessions \<Rightarrow> string \<Rightarrow> string \<Rightarrow> int \<Rightarrow> int \<Rightarrow> sessions \<times> session" where
  "create ss sessId k ttlMs now =
     (let ss1 = (if countByApiKey ss k now \<ge> MAX_SESSIONS_PER_API_KEY
                 then deleteOldestByApiKey ss k now else ss);
          ss2 = evict_oldest_session ss1;
          record = \<lparr>sessionId = sessId, apiKey = Some k, s_rs_access_token = None,
                    s_rs_refresh_token = None, s_provider = None, s_created_at = now,
                    last_accessed = now, initialized = Some False, s_protocolVersion = None,
                    expiresAt = now + ttlMs\<rparr>
      in (jm_set sessId record ss2, record))"

definition get_session :: "sessions \<Rightarrow> string \<Rightarrow> int \<Rightarrow> sessions \<times> session option" where
  "get_session ss sessId now =
     (case jm_get ss sessId of
        None \<Rightarrow> (ss, None)
      | Some x \<Rightarrow>
          if now \<ge> expiresAt x then (jm_delete sessId ss, None)
          else (let x' = x\<lparr>last_accessed := now\<rparr> in (jm_set sessId x' ss, Some x')))"

definition apply_patch :: "session \<Rightarrow> session_patch \<Rightarrow> session" where
  "apply_patch x p =
     x\<lparr>apiKey := (case p_apiKey p of None \<Rightarrow> apiKey x | Some v \<Rightarrow> Some v),
       s_rs_access_token :=
         (case p_rs_access_token p of None \<Rightarrow> s_rs_access_token x | Some v \<Rightarrow> Some v),
       s_rs_refresh_token :=
         (case p_rs_refresh_token p of None \<Rightarrow> s_rs_refresh_token x | Some v \<Rightarrow> Some v),
       s_provider := (case p_provider p of None \<Rightarrow> s_provider x | Some v \<Rightarrow> Some v),
       s_created_at := (case p_created_at p of None \<Rightarrow> s_created_at x | Some v \<Rightarrow> v),
       initialized := (case p_initialized p of None \<Rightarrow> initialized x | Some v \<Rightarrow> Some v),
       s_protocolVersion :=
         (case p_protocolVersion p of None \<Rightarrow> s_protocolVersion x | Some v \<Rightarrow> Some v)\<rparr>"

definition update :: "sessions \<Rightarrow> string \<Rightarrow> session_patch \<Rightarrow> int \<Rightarrow> sessions" where
  "update ss sessId p now =
     (case jm_get ss sessId of
        None \<Rightarrow> ss
      | Some x \<Rightarrow> jm_set sessId ((apply_patch x p)\<lparr>last_accessed := now\<rparr>) ss)"

definition delete_session :: "sessions \<Rightarrow> string \<Rightarrow> sessions" where
  "delete_session ss sessId = jm_delete sessId ss"

definition ensure :: "sessions \<Rightarrow> string \<Rightarrow> int \<Rightarrow> int \<Rightarrow> sessions" where
  "ensure ss sessId ttlMs now =
     (case jm_get ss sessId of
        Some x \<Rightarrow> jm_set sessId (x\<lparr>expiresAt := now + ttlMs, last_accessed := now\<rparr>) ss
      | None \<Rightarrow>
          jm_set sessId
            \<lparr>sessionId = sessId, apiKey = None, s_rs_access_token = None,
             s_rs_refresh_token = None, s_provider = None, s_created_at = now,
             last_accessed = now, initialized = None, s_protocolVersion = None,
             expiresAt = now + ttlMs\<rparr>
            (evict_oldest_session ss))"

definition put :: "sessions \<Rightarrow> string \<Rightarrow> session_record \<Rightarrow> int \<Rightarrow> int \<Rightarrow> sessions" where
  "put ss sessId v ttlMs now =
     jm_set sessId
       \<lparr>sessionId = sessId, apiKey = v_apiKey v, s_rs_access_token = v_rs_access_token v,
        s_rs_refresh_token = v_rs_refresh_token v, s_provider = v_provider v,
        s_created_at = v_created_at v,
        last_accessed = (case v_last_accessed v of None \<Rightarrow> now | Some t \<Rightarrow> t),
        initialized = v_initialized v, s_protocolVersion = v_protocolVersion v,
        expiresAt = now + ttlMs\<rparr>
       ss"

definition cleanup_sessions :: "sessions \<Rightarrow> int \<Rightarrow> sessions" where
  "cleanup_sessions ss now = filter (\<lambda>e. \<not> now \<ge> expiresAt (snd e)) ss"

text \<open>The keys of the map are the ids the records carry.\<close>

definition keyed :: "sessions \<Rightarrow> bool" where
  "keyed ss = list_all (\<lambda>e. sessionId (snd e) = fst e) ss"

text \<open>Five sessions of the fingerprint \<open>k\<close>, created at times 1 to 5, for examples.\<close>

definition five_sessions :: sessions where
  "five_sessions =
     fst (create (fst (create (fst (create (fst (create (fst (create []
       ''s1'' ''k'' 1000 1)) ''s2'' ''k'' 1000 2)) ''s3'' ''k'' 1000 3)) ''s4'' ''k'' 1000 4))
       ''s5'' ''k'' 1000 5)"

definition sixth_record :: session_record where
  "sixth_record =
     \<lparr>v_apiKey = Some ''k'', v_rs_access_token = None, v_rs_refresh_token = None,
      v_provider = None, v_created_at = 6, v_last_accessed = None, v_initialized = None,
      v_protocolVersion = None\<rparr>"

section \<open>The in-memory token store\<close>

text \<open>
  \<open>MemoryTokenStore\<close>. An RS record is one object that both index maps point to, and
  the store updates it in place. The model keeps the objects in a heap (\<open>objs\<close>, the
  address of an object is its position) and lets \<open>rsAccessMap\<close> and \<open>rsRefreshMap\<close>
  map a token to an address.
\<close>

record rs_record =
  rs_access_token :: string
  rs_refresh_token :: string
  r_provider :: provider_tokens
  r_created_at :: int
  r_expiresAt :: int

record 'a timed_entry =
  te_value :: 'a
  te_expiresAt :: int
  te_createdAt :: int

record token_store =
  objs :: "rs_record list"
  rsAccessMap :: "(string \<times> nat) list"
  rsRefreshMap :: "(string \<times> nat) list"
  transactions :: "(string \<times> transaction timed_entry) list"
  codes :: "(string \<times> string timed_entry) list"

definition empty_store :: token_store where
  "empty_store = \<lparr>objs = [], rsAccessMap = [], rsRefreshMap = [], transactions = [], codes = []\<rparr>"

text \<open>Reading an object; the maps only hold addresses that were allocated.\<close>

definition deref :: "token_store \<Rightarrow> nat \<Rightarrow> rs_record option" where
  "deref s a = (if a < length (objs s) then Some (objs s ! a) else None)"

definition lookup :: "token_store \<Rightarrow> (string \<times> nat) list \<Rightarrow> string \<Rightarrow> (nat \<times> rs_record) option" where
  "lookup s m k =
     (case jm_get m k of
        None \<Rightarrow> None
      | Some a \<Rightarrow> (case deref s a of None \<Rightarrow> None | Some r \<Rightarrow> Some (a, r)))"

text \<open>
  \<open>evictOldest(map, maxSize, countToRemove)\<close>: nothing below \<open>maxSize\<close>; otherwise the
  first \<open>countToRemove\<close> keys of the stable sort by creation time are deleted from the
  map that was passed. \<open>tm\<close> reads \<open>created_at ?? createdAt ?? 0\<close> of a value.
\<close>

definition evictOldest :: "('v \<Rightarrow> int) \<Rightarrow> ('k \<times> 'v) list \<Rightarrow> nat \<Rightarrow> nat \<Rightarrow> ('k \<times> 'v) list" where
  "evictOldest tm m maxSize countToRemove =
     (if length m < maxSize then m
      else foldl (\<lambda>m' e. jm_delete (fst e) m') m
             (take countToRemove (sort_key (\<lambda>e. tm (snd e)) m)))"

definition created_at_of :: "token_store \<Rightarrow> nat \<Rightarrow> int" where
  "created_at_of s a = (case deref s a of None \<Rightarrow> 0 | Some r \<Rightarrow> r_created_at r)"

text \<open>\<open>crypto.randomUUID()\<close> is the argument \<open>uuid\<close>.\<close>

definition storeRsMapping ::
  "token_store \<Rightarrow> string \<Rightarrow> provider_tokens \<Rightarrow> string option \<Rightarrow> int \<Rightarrow> string \<Rightarrow> int \<Rightarrow>
     token_store \<times> rs_record" where
  "storeRsMapping s rsAccess prov rsRefresh ttlMs uuid now =
     (let expiresAt' = now + ttlMs;
          s1 = s\<lparr>rsAccessMap := evictOldest (created_at_of s) (rsAccessMap s) MAX_RS_RECORDS 10\<rparr>;
          existing = (case rsRefresh of
                        None \<Rightarrow> None
                      | Some t \<Rightarrow> if t = [] then None else lookup s1 (rsRefreshMap s1) t)
      in case existing of
           Some (a, old) \<Rightarrow>
             (let r = old\<lparr>rs_access_token := rsAccess, r_provider := prov,
                          r_expiresAt := expiresAt'\<rparr>
              in (s1\<lparr>objs := (objs s1)[a := r],
                     rsAccessMap :=
                       jm_set rsAccess a (jm_delete (rs_access_token old) (rsAccessMap s1))\<rparr>,
                  r))
         | None \<Rightarrow>
             (let r = \<lparr>rs_access_token = rsAccess,
                       rs_refresh_token = (case rsRefresh of None \<Rightarrow> uuid | Some t \<Rightarrow> t),
                       r_provider = prov, r_created_at = now, r_expiresAt = expiresAt'\<rparr>;
                  a = length (objs s1)
              in (s1\<lparr>objs := objs s1 @ [r],
                     rsAccessMap := jm_set (rs_access_token r) a (rsAccessMap s1),
                     rsRefreshMap := jm_set (rs_refresh_token r) a (rsRefreshMap s1)\<rparr>,
                  r)))"

definition getByRsAccess :: "token_store \<Rightarrow> string \<Rightarrow> int \<Rightarrow> token_store \<times> rs_record option" where
  "getByRsAccess s rsAccess now =
     (case lookup s (rsAccessMap s) rsAccess of
        None \<Rightarrow> (s, None)
      | Some (a, entry) \<Rightarrow>
          if now \<ge> r_expiresAt entry then
            (s\<lparr>rsAccessMap := jm_delete rsAccess (rsAccessMap s),
               rsRefreshMap := jm_delete (rs_refresh_token entry) (rsRefreshMap s)\<rparr>, None)
          else (s, Some entry))"

definition getByRsRefresh :: "token_store \<Rightarrow> string \<Rightarrow> int \<Rightarrow> token_store \<times> rs_record option" where
  "getByRsRefresh s rsRefresh now =
     (case lookup s (rsRefreshMap s) rsRefresh of
        None \<Rightarrow> (s, None)
      | Some (a, entry) \<Rightarrow>
          if now \<ge> r_expiresAt entry then
            (s\<lparr>rsAccessMap := jm_delete (rs_access_token entry) (rsAccessMap s),
               rsRefreshMap := jm_delete rsRefresh (rsRefreshMap s)\<rparr>, None)
          else (s, Some entry))"

text \<open>\<open>if (maybeNewRsAccess)\<close>: a missing or empty token is falsy.\<close>

definition updateByRsRefresh ::
  "token_store \<Rightarrow> string \<Rightarrow> provider_tokens \<Rightarrow> string option \<Rightarrow> int \<Rightarrow> int \<Rightarrow>
     token_store \<times> rs_record option" where
  "updateByRsRefresh s rsRefresh prov maybeNewRsAccess ttlMs now =
     (case lookup s (rsRefreshMap s) rsRefresh of
        None \<Rightarrow> (s, None)
      | Some (a, rec) \<Rightarrow>
          (let rotate = (case maybeNewRsAccess of None \<Rightarrow> False | Some t \<Rightarrow> t \<noteq> []);
               am1 = (if rotate then jm_delete (rs_access_token rec) (rsAccessMap s)
                      else rsAccessMap s);
               rec1 = (if rotate
                       then rec\<lparr>rs_access_token := the maybeNewRsAccess, r_created_at := now\<rparr>
                       else rec);
               rec2 = rec1\<lparr>r_provider := prov, r_expiresAt := now + ttlMs\<rparr>
           in (s\<lparr>objs := (objs s)[a := rec2],
                  rsAccessMap := jm_set (rs_access_token rec2) a am1,
                  rsRefreshMap := jm_set rsRefresh a (rsRefreshMap s)\<rparr>,
               Some rec2)))"

definition cleanup :: "token_store \<Rightarrow> int \<Rightarrow> token_store" where
  "cleanup s now =
     (let expired = (\<lambda>e. case deref s (snd e) of None \<Rightarrow> False | Some r \<Rightarrow> now \<ge> r_expiresAt r)
      in s\<lparr>rsAccessMap := filter (\<lambda>e. \<not> expired e) (rsAccessMap s),
            rsRefreshMap := filter (\<lambda>e. \<not> expired e) (rsRefreshMap s),
            transactions := filter (\<lambda>e. \<not> now \<ge> te_expiresAt (snd e)) (transactions s),
            codes := filter (\<lambda>e. \<not> now \<ge> te_expiresAt (snd e)) (codes s)\<rparr>)"

text \<open>\<open>ttlSeconds ? ttlSeconds * 1000 : DEFAULT\<close>: a missing or zero TTL is falsy.\<close>

definition ttl_ms :: "int option \<Rightarrow> int \<Rightarrow> int" where
  "ttl_ms ttlSeconds dflt =
     (case ttlSeconds of None \<Rightarrow> dflt | Some t \<Rightarrow> if t = 0 then dflt else t * 1000)"

definition saveTransaction :: "token_store \<Rightarrow> string \<Rightarrow> transaction \<Rightarrow> int option \<Rightarrow> int \<Rightarrow> token_store" where
  "saveTransaction s txnId txn ttlSeconds now =
     s\<lparr>transactions :=
         jm_set txnId
           \<lparr>te_value = txn, te_expiresAt = now + ttl_ms ttlSeconds DEFAULT_TXN_TTL_MS,
            te_createdAt = now\<rparr>
           (evictOldest te_createdAt (transactions s) MAX_TRANSACTIONS 10)\<rparr>"

definition getTransaction :: "token_store \<Rightarrow> string \<Rightarrow> int \<Rightarrow> token_store \<times> transaction option" where
  "getTransaction s txnId now =
     (case jm_get (transactions s) txnId of
        None \<Rightarrow> (s, None)
      | Some entry \<Rightarrow>
          if now \<ge> te_expiresAt entry
          then (s\<lparr>transactions := jm_delete txnId (transactions s)\<rparr>, None)
          else (s, Some (te_value entry)))"

definition deleteTransaction :: "token_store \<Rightarrow> string \<Rightarrow> token_store" where
  "deleteTransaction s txnId = s\<lparr>transactions := jm_delete txnId (transactions s)\<rparr>"

definition saveCode :: "token_store \<Rightarrow> string \<Rightarrow> string \<Rightarrow> int option \<Rightarrow> int \<Rightarrow> token_store" where
  "saveCode s c txnId ttlSeconds now =
     s\<lparr>codes :=
         jm_set c
           \<lparr>te_value = txnId, te_expiresAt = now + ttl_ms ttlSeconds DEFAULT_CODE_TTL_MS,
            te_createdAt = now\<rparr>
           (codes s)\<rparr>"

definition getTxnIdByCode :: "token_store \<Rightarrow> string \<Rightarrow> int \<Rightarrow> token_store \<times> string option" where
  "getTxnIdByCode s c now =
     (case jm_get (codes s) c of
        None \<Rightarrow> (s, None)
      | Some entry \<Rightarrow>
          if now \<ge> te_expiresAt entry
          then (s\<lparr>codes := jm_delete c (codes s)\<rparr>, None)
          else (s, Some (te_value entry)))"

definition deleteCode :: "token_store \<Rightarrow> string \<Rightarrow> token_store" where
  "deleteCode s c = s\<lparr>codes := jm_delete c (codes s)\<rparr>"

section \<open>Refreshing the provider token\<close>

text \<open>
  \<^verbatim>\<open>shared/oauth/refresh.ts\<close>. The exchange with the provider's token endpoint
  (\<open>oauth.refreshTokenGrantRequest\<close> and \<open>oauth.processRefreshTokenResponse\<close>) is the
  argument \<open>reply\<close>: the parsed token response, the provider's error body, or a
  failure of the request.
\<close>

record token_reply =
  u_access_token :: "string option"
  u_refresh_token :: "string option"
  u_expires_in :: "int option"
  u_scope :: "string option"

datatype upstream_reply =
    TokenResponse token_reply
  | ResponseBodyError string "string option"
  | RequestFailed string

record provider_refresh_config =
  prc_clientId :: string
  prc_clientSecret :: string
  prc_accountsUrl :: string
  prc_tokenEndpointPath :: "string option"

definition is_space :: "char \<Rightarrow> bool" where
  "is_space c = (c \<in> set [CHR '' '', CHR 0x09, CHR 0x0A, CHR 0x0B, CHR 0x0C, CHR 0x0D])"

text \<open>\<open>str.split(/\s+/).filter(Boolean)\<close>: the maximal runs of characters that are not spaces.\<close>

fun split_words :: "string \<Rightarrow> string \<Rightarrow> string list" where
  "split_words cur [] = (if cur = [] then [] else [cur])"
| "split_words cur (c # cs) =
     (if is_space c then (if cur = [] then split_words [] cs else cur # split_words [] cs)
      else split_words (cur @ [c]) cs)"

definition trim :: "string \<Rightarrow> string" where
  "trim s = rev (dropWhile is_space (rev (dropWhile is_space s)))"

definition truthy :: "string option \<Rightarrow> bool" where
  "truthy x = (case x of None \<Rightarrow> False | Some t \<Rightarrow> t \<noteq> [])"

definition refreshProviderToken ::
  "string \<Rightarrow> provider_refresh_config \<Rightarrow> upstream_reply \<Rightarrow> int \<Rightarrow> string + provider_tokens" where
  "refreshProviderToken refreshToken config reply now =
     (case reply of
        TokenResponse res \<Rightarrow>
          if \<not> truthy (u_access_token res) then Inl ''No access_token in provider response''
          else Inr \<lparr>access_token = the (u_access_token res),
                    refresh_token =
                      Some (case u_refresh_token res of None \<Rightarrow> refreshToken | Some t \<Rightarrow> t),
                    expires_at =
                      Some (now + (case u_expires_in res of None \<Rightarrow> 3600 | Some n \<Rightarrow> n) * 1000),
                    scopes = Some (split_words [] (or_else (u_scope res) []))\<rparr>
      | ResponseBodyError e d \<Rightarrow>
          Inl (trim (''Provider returned '' @ e @ '': '' @ or_else d []))
      | RequestFailed m \<Rightarrow> Inl (''Network error: '' @ m))"

definition EXPIRY_BUFFER_MS :: int where
  "EXPIRY_BUFFER_MS = 60000"

definition REFRESH_COOLDOWN_MS :: int where
  "REFRESH_COOLDOWN_MS = 30000"

text \<open>The module's map \<open>recentlyRefreshed\<close> is passed in and returned.\<close>

definition shouldSkipRefresh :: "(string \<times> int) list \<Rightarrow> string \<Rightarrow> int \<Rightarrow> bool" where
  "shouldSkipRefresh recent rsToken now =
     (case jm_get recent rsToken of
        None \<Rightarrow> False
      | Some lastRefresh \<Rightarrow> lastRefresh \<noteq> 0 \<and> now - lastRefresh < REFRESH_COOLDOWN_MS)"

definition markRefreshed :: "(string \<times> int) list \<Rightarrow> string \<Rightarrow> int \<Rightarrow> (string \<times> int) list" where
  "markRefreshed recent rsToken now =
     (let r1 = jm_set rsToken now recent
      in if length r1 > 1000
         then filter (\<lambda>e. \<not> now - snd e > REFRESH_COOLDOWN_MS) r1 else r1)"

definition isTokenExpiredOrExpiring :: "int option \<Rightarrow> int \<Rightarrow> int \<Rightarrow> bool" where
  "isTokenExpiredOrExpiring expAt bufferMs now =
     (case expAt of
        None \<Rightarrow> False
      | Some e \<Rightarrow> if e = 0 then False else now \<ge> e - bufferMs)"

record fresh_result =
  accessToken :: string
  wasRefreshed :: bool

definition ensureFreshToken ::
  "string \<Rightarrow> token_store \<Rightarrow> provider_refresh_config option \<Rightarrow> upstream_reply \<Rightarrow>
     (string \<times> int) list \<Rightarrow> int \<Rightarrow> fresh_result \<times> token_store \<times> (string \<times> int) list" where
  "ensureFreshToken rsAccessToken s providerConfig reply recent now =
     (case getByRsAccess s rsAccessToken now of
        (s1, None) \<Rightarrow> (\<lparr>accessToken = [], wasRefreshed = False\<rparr>, s1, recent)
      | (s1, Some record) \<Rightarrow>
          (let keep = (\<lparr>accessToken = access_token (r_provider record), wasRefreshed = False\<rparr>,
                       s1, recent)
           in if access_token (r_provider record) = []
              then (\<lparr>accessToken = [], wasRefreshed = False\<rparr>, s1, recent)
              else if \<not> isTokenExpiredOrExpiring (expires_at (r_provider record))
                         EXPIRY_BUFFER_MS now then keep
              else if shouldSkipRefresh recent rsAccessToken now then keep
              else if \<not> truthy (refresh_token (r_provider record)) then keep
              else (case providerConfig of
                      None \<Rightarrow> keep
                    | Some config \<Rightarrow>
                        (case refreshProviderToken (the (refresh_token (r_provider record)))
                                config reply now of
                           Inl e \<Rightarrow> keep
                         | Inr tokens \<Rightarrow>
                             (let providerRefreshRotated =
                                    (refresh_token tokens \<noteq> refresh_token (r_provider record));
                                  newRsAccess = (if providerRefreshRotated then None
                                                 else Some (rs_access_token record));
                                  s2 = fst (updateByRsRefresh s1 (rs_refresh_token record) tokens
                                              newRsAccess DEFAULT_RS_TOKEN_TTL_MS now)
                              in (\<lparr>accessToken = access_token tokens, wasRefreshed = True\<rparr>,
                                  s2, markRefreshed recent rsAccessToken now))))))"

section \<open>The token endpoint\<close>

text \<open>
  \<open>handleToken\<close> of \<^verbatim>\<open>shared/oauth/flow.ts\<close>. A thrown \<open>Error\<close> is its message, on
  the left. \<open>pkce\<close> stands for \<open>oauth.calculatePKCECodeChallenge\<close>, the base64url
  text of the SHA-256 digest of the verifier. \<open>if (!txnId)\<close> also rejects a code that
  is stored with an empty transaction id. The opaque tokens that
  \<open>generateOpaqueToken(24)\<close> draws are the arguments \<open>newAccess\<close> and \<open>newRefresh\<close>.
  Of the provider configuration only its presence matters here, since the exchange with
  the provider is the argument \<open>reply\<close>. One reading of the clock serves a whole call.
\<close>

datatype token_input =
    RefreshTokenGrant string
  | AuthorizationCodeGrant string string

record token_response =
  tr_access_token :: string
  tr_refresh_token :: string
  tr_token_type :: string
  tr_expires_in :: int
  tr_scope :: string

fun join_sp :: "string list \<Rightarrow> string" where
  "join_sp [] = []"
| "join_sp [x] = x"
| "join_sp (x # y # ys) = x @ '' '' @ join_sp (y # ys)"

definition scopes_text :: "provider_tokens option \<Rightarrow> string" where
  "scopes_text p =
     join_sp (case p of None \<Rightarrow> [] | Some q \<Rightarrow> (case scopes q of None \<Rightarrow> [] | Some xs \<Rightarrow> xs))"

definition handleToken_refresh ::
  "string \<Rightarrow> token_store \<Rightarrow> provider_refresh_config option \<Rightarrow> upstream_reply \<Rightarrow> string \<Rightarrow> int \<Rightarrow>
     (string + token_response) \<times> token_store" where
  "handleToken_refresh refreshTok s providerConfig reply newAccess now =
     (case getByRsRefresh s refreshTok now of
        (s1, None) \<Rightarrow> (Inl ''invalid_grant'', s1)
      | (s1, Some rec) \<Rightarrow>
          (let providerExpiresAt = (case expires_at (r_provider rec) of None \<Rightarrow> 0 | Some e \<Rightarrow> e);
               isExpiringSoon = (now \<ge> providerExpiresAt - 60000);
               refreshed =
                 (if isExpiringSoon \<and> providerConfig \<noteq> None then
                    (if \<not> truthy (refresh_token (r_provider rec))
                     then Inl ''provider_token_expired''
                     else (case refreshProviderToken (the (refresh_token (r_provider rec)))
                                  (the providerConfig) reply now of
                             Inl e \<Rightarrow> Inl ''provider_refresh_failed''
                           | Inr tokens \<Rightarrow> Inr tokens))
                  else Inr (r_provider rec))
           in case refreshed of
                Inl e \<Rightarrow> (Inl e, s1)
              | Inr prov \<Rightarrow>
                  (let providerRefreshRotated =
                         (refresh_token prov \<noteq> refresh_token (r_provider rec));
                       newAccess' = (if providerRefreshRotated then Some newAccess else None);
                       (s2, updated) = updateByRsRefresh s1 refreshTok prov newAccess'
                                         DEFAULT_RS_TOKEN_TTL_MS now;
                       expiresIn = (case expires_at prov of
                                      None \<Rightarrow> 3600
                                    | Some e \<Rightarrow> if e = 0 then 3600
                                                else max 1 ((e - now) div 1000))
                   in (Inr \<lparr>tr_access_token =
                              (case newAccess' of
                                 None \<Rightarrow> (case updated of
                                            None \<Rightarrow> rs_access_token rec
                                          | Some u \<Rightarrow> rs_access_token u)
                               | Some t \<Rightarrow> t),
                            tr_refresh_token = refreshTok, tr_token_type = ''bearer'',
                            tr_expires_in = expiresIn,
                            tr_scope = scopes_text (map_option r_provider updated)\<rparr>,
                       s2))))"

definition handleToken_code ::
  "(string \<Rightarrow> string) \<Rightarrow> string \<Rightarrow> string \<Rightarrow> token_store \<Rightarrow> string \<Rightarrow> string \<Rightarrow> string \<Rightarrow> int \<Rightarrow>
     (string + token_response) \<times> token_store" where
  "handleToken_code pkce c codeVerifier s newAccess newRefresh uuid now =
     (case getTxnIdByCode s c now of
        (s1, None) \<Rightarrow> (Inl ''invalid_grant'', s1)
      | (s1, Some txnId) \<Rightarrow>
          if txnId = [] then (Inl ''invalid_grant'', s1)
          else
          (case getTransaction s1 txnId now of
             (s2, None) \<Rightarrow> (Inl ''invalid_grant'', s2)
           | (s2, Some txn) \<Rightarrow>
               if codeChallenge txn \<noteq> pkce codeVerifier then (Inl ''invalid_grant'', s2)
               else
                 (let has_provider =
                        (case provider txn of None \<Rightarrow> False | Some p \<Rightarrow> access_token p \<noteq> []);
                      s3 = (if has_provider
                            then fst (storeRsMapping s2 newAccess (the (provider txn))
                                        (Some newRefresh) DEFAULT_RS_TOKEN_TTL_MS uuid now)
                            else s2);
                      s4 = deleteCode (deleteTransaction s3 txnId) c
                  in (Inr \<lparr>tr_access_token = newAccess, tr_refresh_token = newRefresh,
                           tr_token_type = ''bearer'', tr_expires_in = 3600,
                           tr_scope = (let j = scopes_text (provider txn)
                                       in if j \<noteq> [] then j else or_else (scope txn) [])\<rparr>,
                      s4))))"

definition handleToken ::
  "(string \<Rightarrow> string) \<Rightarrow> token_input \<Rightarrow> token_store \<Rightarrow> provider_refresh_config option \<Rightarrow>
     upstream_reply \<Rightarrow> string \<Rightarrow> string \<Rightarrow> string \<Rightarrow> int \<Rightarrow>
     (string + token_response) \<times> token_store" where
  "handleToken pkce input s providerConfig reply newAccess newRefresh uuid now =
     (case input of
        RefreshTokenGrant refreshTok \<Rightarrow>
          handleToken_refresh refreshTok s providerConfig reply newAccess now
      | AuthorizationCodeGrant c codeVerifier \<Rightarrow>
          handleToken_code pkce c codeVerifier s newAccess newRefresh uuid now)"

text \<open>Stores and replies for examples.\<close>

definition prov1 :: provider_tokens where
  "prov1 = \<lparr>access_token = ''prov-access-1'', refresh_token = Some ''prov-refresh-1'',
            expires_at = Some 1000, scopes = Some [''read'']\<rparr>"

definition store1 :: token_store where
  "store1 = fst (storeRsMapping empty_store ''rs-access-1'' prov1 (Some ''rs-refresh-1'')
                   DEFAULT_RS_TOKEN_TTL_MS ''uuid'' 0)"

definition cfg1 :: provider_refresh_config where
  "cfg1 = \<lparr>prc_clientId = ''cid'', prc_clientSecret = ''secret'',
           prc_accountsUrl = ''https://accounts.example.com'', prc_tokenEndpointPath = None\<rparr>"

definition rotated_reply :: upstream_reply where
  "rotated_reply =
     TokenResponse \<lparr>u_access_token = Some ''prov-access-2'',
       u_refresh_token = Some ''prov-refresh-2'', u_expires_in = Some 3600,
       u_scope = Some ''read write''\<rparr>"

definition same_reply :: upstream_reply where
  "same_reply =
     TokenResponse \<lparr>u_access_token = Some ''prov-access-2'', u_refresh_token = None,
       u_expires_in = Some 3600, u_scope = Some ''read write''\<rparr>"

definition txn1 :: transaction where
  "txn1 = \<lparr>codeChallenge = ''challenge-1'', state = Some ''st'', scope = Some ''read'',
           createdAt = 0, sid = None, provider = None\<rparr>"

definition store2 :: token_store where
  "store2 =
     saveCode (saveTransaction empty_store ''txn-1'' txn1 None 0) ''code-1'' ''txn-1'' None 0"

definition pkce1 :: "string \<Rightarrow> string" where
  "pkce1 v = (if v = ''verifier-1'' then ''challenge-1'' else ''other'')"

text \<open>A transaction carries provider tokens when \<open>txn.provider?.access_token\<close> is truthy.\<close>

definition has_provider_token :: "transaction \<Rightarrow> bool" where
  "has_provider_token txn =
     (case provider txn of None \<Rightarrow> False | Some p \<Rightarrow> access_token p \<noteq> [])"

text \<open>A code resolves when it and the transaction it names are stored and not expired.\<close>

definition code_resolves :: "token_store \<Rightarrow> string \<Rightarrow> int \<Rightarrow> transaction option" where
  "code_resolves s c now =
     (case jm_get (codes s) c of
        None \<Rightarrow> None
      | Some e \<Rightarrow>
          if now \<ge> te_expiresAt e then None
          else (case jm_get (transactions s) (te_value e) of
                  None \<Rightarrow> None
                | Some t \<Rightarrow> if now \<ge> te_expiresAt t then None else Some (te_value t)))"

text \<open>
  What the two lookups of the authorization-code grant find for a code: the transaction
  id and the transaction, when the code is stored and live, the id it names is not
  empty, and the transaction under that id is stored and live.
\<close>

definition exchange_transaction ::
  "token_store \<Rightarrow> string \<Rightarrow> int \<Rightarrow> (string \<times> transaction) option" where
  "exchange_transaction s c now =
     (case jm_get (codes s) c of
        None \<Rightarrow> None
      | Some e \<Rightarrow>
          if now \<ge> te_expiresAt e \<or> te_value e = [] then None
          else (case jm_get (transactions s) (te_value e) of
                  None \<Rightarrow> None
                | Some t \<Rightarrow>
                    if now \<ge> te_expiresAt t then None else Some (te_value e, te_value t)))"

definition same_rs_records :: "token_store \<Rightarrow> token_store \<Rightarrow> bool" where
  "same_rs_records s s' =
     (objs s' = objs s \<and> rsAccessMap s' = rsAccessMap s \<and> rsRefreshMap s' = rsRefreshMap s)"

text \<open>
  The property of claim C2 for one record: looking the record up by its access token
  and by its refresh token gives the same answer (the same record, or nothing both times).
\<close>

definition two_keys_agree :: "token_store \<Rightarrow> int \<Rightarrow> rs_record \<Rightarrow> bool" where
  "two_keys_agree s now r =
     (snd (getByRsAccess s (rs_access_token r) now) =
      snd (getByRsRefresh s (rs_refresh_token r) now))"

text \<open>
  A store is well indexed at \<open>now\<close> when every entry of the access map points to a live
  record that carries the entry's key and that the refresh map finds under its refresh token.
\<close>

definition well_indexed :: "token_store \<Rightarrow> int \<Rightarrow> bool" where
  "well_indexed s now =
     list_all
       (\<lambda>e. case deref s (snd e) of
               None \<Rightarrow> False
             | Some r \<Rightarrow> rs_access_token r = fst e \<and> now < r_expiresAt r \<and>
                         jm_get (rsRefreshMap s) (rs_refresh_token r) = Some (snd e))
       (rsAccessMap s)"

text \<open>
  A store at the record cap, as \<open>MAX_RS_RECORDS\<close> calls of \<open>storeRsMapping\<close> with
  distinct tokens at the times 0, 1, 2, ... leave it. The tokens are written in unary.
\<close>

definition acc_tok :: "nat \<Rightarrow> string" where
  "acc_tok i = CHR ''a'' # replicate i CHR ''1''"

definition ref_tok :: "nat \<Rightarrow> string" where
  "ref_tok i = CHR ''r'' # replicate i CHR ''1''"

definition full_rec :: "nat \<Rightarrow> rs_record" where
  "full_rec i = \<lparr>rs_access_token = acc_tok i, rs_refresh_token = ref_tok i, r_provider = prov1,
                 r_created_at = int i, r_expiresAt = int i + DEFAULT_RS_TOKEN_TTL_MS\<rparr>"

definition full_store :: token_store where
  "full_store =
     \<lparr>objs = map full_rec [0..<MAX_RS_RECORDS],
      rsAccessMap = map (\<lambda>i. (acc_tok i, i)) [0..<MAX_RS_RECORDS],
      rsRefreshMap = map (\<lambda>i. (ref_tok i, i)) [0..<MAX_RS_RECORDS],
      transactions = [], codes = []\<rparr>"

section \<open>URLs and the platform\<close>

text \<open>
  The parts of a WHATWG \<open>URL\<close> object that the flow reads and writes. Parsing,
  serialising and the base64url JSON codec are the platform's, so they are collected in
  a record of functions that the flow takes as an argument: \<open>parseUrl s\<close> is
  \<open>new URL(s)\<close> (\<open>None\<close> where it throws), \<open>resolveUrl p b\<close> is \<open>new URL(p, b)\<close>,
  \<open>urlString\<close> is \<open>toString()\<close>, \<open>encodeState\<close> and \<open>decodeState\<close> are
  \<open>base64UrlEncodeJson\<close> and \<open>base64UrlDecodeJson\<close> on the composite state, and
  \<open>parseQuery\<close> is \<open>new URLSearchParams(s)\<close>.
\<close>

record url =
  protocol :: string
  hostname :: string
  host :: string
  pathname :: string
  searchParams :: "(string \<times> string) list"

record composite_state =
  tid :: "string option"
  cs :: "string option"
  cr :: "string option"
  cs_sid :: "string option"

record platform =
  parseUrl :: "string \<Rightarrow> url option"
  resolveUrl :: "string \<Rightarrow> string \<Rightarrow> url option"
  urlString :: "url \<Rightarrow> string"
  encodeState :: "composite_state \<Rightarrow> string"
  decodeState :: "string \<Rightarrow> composite_state option"
  parseQuery :: "string \<Rightarrow> (string \<times> string) list"

text \<open>\<open>searchParams.set\<close>: the first binding of the name is replaced and the others are dropped.\<close>

fun sp_set :: "string \<Rightarrow> string \<Rightarrow> (string \<times> string) list \<Rightarrow> (string \<times> string) list" where
  "sp_set k v [] = [(k, v)]"
| "sp_set k v (e # ps) =
     (if fst e = k then (k, v) # filter (\<lambda>e'. fst e' \<noteq> k) ps else e # sp_set k v ps)"

definition set_param :: "string \<Rightarrow> string \<Rightarrow> url \<Rightarrow> url" where
  "set_param k v u = u\<lparr>searchParams := sp_set k v (searchParams u)\<rparr>"

definition startsWith :: "string \<Rightarrow> string \<Rightarrow> bool" where
  "startsWith s p = (take (length p) s = p)"

definition endsWith :: "string \<Rightarrow> string \<Rightarrow> bool" where
  "endsWith s x = (length x \<le> length s \<and> drop (length s - length x) s = x)"

fun str_includes :: "string \<Rightarrow> string \<Rightarrow> bool" where
  "str_includes [] sub = (sub = [])"
| "str_includes (c # s) sub = (startsWith (c # s) sub \<or> str_includes s sub)"

definition lower_char :: "char \<Rightarrow> char" where
  "lower_char c =
     (case map_of (zip ''ABCDEFGHIJKLMNOPQRSTUVWXYZ'' ''abcdefghijklmnopqrstuvwxyz'') c of
        None \<Rightarrow> c
      | Some l \<Rightarrow> l)"

definition toLowerCase :: "string \<Rightarrow> string" where
  "toLowerCase s = map lower_char s"

definition is_digit :: "char \<Rightarrow> bool" where
  "is_digit c = (c \<in> set ''0123456789'')"

section \<open>The SSRF guard\<close>

text \<open>\<^verbatim>\<open>shared/oauth/ssrf.ts\<close>.\<close>

definition BLOCKED_HOSTS :: "string list" where
  "BLOCKED_HOSTS = [''localhost'', ''127.0.0.1'', ''::1'', ''0.0.0.0'', ''[::1]'']"

text \<open>The pattern \<open>/^172\.(1[6-9]|2\d|3[01])\./\<close>.\<close>

definition is_172_private :: "string \<Rightarrow> bool" where
  "is_172_private h =
     (case h of
        c1 # c2 # c3 # c4 # a # b # c7 # _ \<Rightarrow>
          [c1, c2, c3, c4] = ''172.'' \<and> c7 = CHR ''.'' \<and>
          ((a = CHR ''1'' \<and> b \<in> set ''6789'') \<or>
           (a = CHR ''2'' \<and> is_digit b) \<or>
           (a = CHR ''3'' \<and> b \<in> set ''01''))
      | _ \<Rightarrow> False)"

definition isPrivateIp :: "string \<Rightarrow> bool" where
  "isPrivateIp h =
     (startsWith h ''10.'' \<or> is_172_private h \<or> startsWith h ''192.168.'' \<or>
      startsWith h ''169.254.'' \<or> startsWith (toLowerCase h) ''fc00:'' \<or>
      startsWith (toLowerCase h) ''fd00:'' \<or> startsWith (toLowerCase h) ''fe80:'')"

definition BLOCKED_DOMAIN_SUFFIXES :: "string list" where
  "BLOCKED_DOMAIN_SUFFIXES =
     [''.local'', ''.internal'', ''.localhost'', ''.localdomain'', ''.corp'', ''.lan'']"

definition isBlockedDomain :: "string \<Rightarrow> bool" where
  "isBlockedDomain h = list_ex (endsWith (toLowerCase h)) BLOCKED_DOMAIN_SUFFIXES"

datatype ssrf_check_result = Safe | Unsafe string

definition checkSsrfSafe :: "platform \<Rightarrow> string \<Rightarrow> bool \<Rightarrow> ssrf_check_result" where
  "checkSsrfSafe pf urlString' requireNonRootPath =
     (case parseUrl pf urlString' of
        None \<Rightarrow> Unsafe ''invalid_url''
      | Some u \<Rightarrow>
          if protocol u \<noteq> ''https:'' then Unsafe ''https_required''
          else (let h = toLowerCase (hostname u)
                in if h \<in> set BLOCKED_HOSTS then Unsafe ''blocked_host''
                   else if isPrivateIp h then Unsafe ''private_ip''
                   else if isBlockedDomain h then Unsafe ''internal_domain''
                   else if requireNonRootPath \<and> (pathname u = ''/'' \<or> pathname u = [])
                   then Unsafe ''root_path_not_allowed''
                   else Safe))"

definition isSsrfSafe :: "platform \<Rightarrow> string \<Rightarrow> bool \<Rightarrow> bool" where
  "isSsrfSafe pf urlString' requireNonRootPath =
     (checkSsrfSafe pf urlString' requireNonRootPath = Safe)"

text \<open>\<open>assertSsrfSafe\<close> throws an \<open>Error\<close>; the model returns its message on the left.\<close>

definition assertSsrfSafe :: "platform \<Rightarrow> string \<Rightarrow> bool \<Rightarrow> string + unit" where
  "assertSsrfSafe pf urlString' requireNonRootPath =
     (case checkSsrfSafe pf urlString' requireNonRootPath of
        Safe \<Rightarrow> Inr ()
      | Unsafe reason \<Rightarrow> Inl (''ssrf_blocked: '' @ reason))"

section \<open>Client ID metadata documents\<close>

text \<open>
  \<^verbatim>\<open>shared/oauth/cimd.ts\<close>. The network is the argument \<open>net\<close>: what \<open>fetch\<close> of a
  URL gives. Every call of \<open>fetch\<close> is recorded, so a result carries the list of the
  URLs that were fetched. A response holds what the code reads of it: \<open>ok\<close>, the status
  as text, the \<open>content-length\<close> header as \<open>Number.parseInt\<close> reads it, the
  \<open>content-type\<close> header and the body. \<open>parseJson\<close> is \<open>JSON.parse\<close> on the body and
  \<open>safeParse\<close> is \<open>ClientMetadataSchema.safeParse\<close>, with the message of the schema
  error on the left.
\<close>

record client_metadata =
  cm_client_id :: string
  cm_client_name :: "string option"
  cm_redirect_uris :: "string list"

record cimd_config =
  timeoutMs :: "nat option"
  maxBytes :: "nat option"
  allowedDomains :: "string list option"

record http_response =
  ok :: bool
  status :: string
  content_length :: "nat option"
  content_type :: "string option"
  body :: string

datatype fetch_outcome =
    Response http_response
  | AbortError
  | FetchError string

record cimd_env =
  net :: "string \<Rightarrow> fetch_outcome"
  parseJson :: "string \<Rightarrow> json option"
  safeParse :: "json \<Rightarrow> string + client_metadata"

definition isClientIdUrl :: "platform \<Rightarrow> string \<Rightarrow> bool" where
  "isClientIdUrl pf clientId =
     (if \<not> startsWith clientId ''https://'' then False
      else (case parseUrl pf clientId of
              None \<Rightarrow> False
            | Some u \<Rightarrow> pathname u \<noteq> ''/'' \<and> length (pathname u) > 1))"

definition isDomainAllowed :: "platform \<Rightarrow> string \<Rightarrow> string list option \<Rightarrow> bool" where
  "isDomainAllowed pf clientIdUrl allowed =
     (case allowed of
        None \<Rightarrow> True
      | Some ds \<Rightarrow>
          if ds = [] then True
          else (case parseUrl pf clientIdUrl of
                  None \<Rightarrow> False
                | Some u \<Rightarrow>
                    (let h = toLowerCase (hostname u)
                     in list_ex (\<lambda>domain. h = toLowerCase domain \<or>
                                   endsWith h (''.'' @ toLowerCase domain)) ds)))"

text \<open>What \<open>fetchClientMetadata\<close> does with the outcome of \<open>fetch\<close>.\<close>

definition read_metadata ::
  "cimd_env \<Rightarrow> string \<Rightarrow> nat \<Rightarrow> fetch_outcome \<Rightarrow> string + client_metadata" where
  "read_metadata env clientIdUrl maxB outcome =
     (case outcome of
        AbortError \<Rightarrow> Inl ''fetch_timeout''
      | FetchError m \<Rightarrow> Inl (''fetch_error: '' @ m)
      | Response r \<Rightarrow>
          if \<not> ok r then Inl (''fetch_failed: '' @ status r)
          else if (case content_length r of None \<Rightarrow> False | Some n \<Rightarrow> n > maxB)
          then Inl ''metadata_too_large''
          else if \<not> (str_includes (or_else (content_type r) []) ''application/json'' \<or>
                      str_includes (or_else (content_type r) []) ''text/json'')
          then Inl ''invalid_content_type''
          else if length (body r) > maxB then Inl ''metadata_too_large''
          else (case parseJson env (body r) of
                  None \<Rightarrow> Inl ''invalid_json''
                | Some d \<Rightarrow>
                    (case safeParse env d of
                       Inl msg \<Rightarrow> Inl (''invalid_metadata: '' @ msg)
                     | Inr md \<Rightarrow>
                         if cm_client_id md \<noteq> clientIdUrl then Inl ''client_id_mismatch''
                         else Inr md)))"

text \<open>The result is paired with the URLs fetched during the call, in order.\<close>

definition fetchClientMetadata ::
  "platform \<Rightarrow> cimd_env \<Rightarrow> string \<Rightarrow> cimd_config option \<Rightarrow>
     (string + client_metadata) \<times> string list" where
  "fetchClientMetadata pf env clientIdUrl config =
     (let maxB = (case config of None \<Rightarrow> 65536
                  | Some c \<Rightarrow> (case maxBytes c of None \<Rightarrow> 65536 | Some n \<Rightarrow> n));
          allowed = (case config of None \<Rightarrow> None | Some c \<Rightarrow> allowedDomains c)
      in case assertSsrfSafe pf clientIdUrl True of
           Inl msg \<Rightarrow> (Inl msg, [])
         | Inr _ \<Rightarrow>
             if \<not> isDomainAllowed pf clientIdUrl allowed then (Inl ''domain_not_allowed'', [])
             else (read_metadata env clientIdUrl maxB (net env clientIdUrl), [clientIdUrl]))"

definition validateRedirectUri :: "client_metadata \<Rightarrow> string \<Rightarrow> bool" where
  "validateRedirectUri metadata redirectUri = (redirectUri \<in> set (cm_redirect_uris metadata))"

section \<open>The authorization endpoint and the provider callback\<close>

text \<open>\<open>handleAuthorize\<close> and \<open>handleProviderCallback\<close> of \<^verbatim>\<open>shared/oauth/flow.ts\<close>.\<close>

record authorize_input =
  ai_clientId :: "string option"
  ai_codeChallenge :: string
  ai_codeChallengeMethod :: string
  ai_redirectUri :: string
  ai_requestedScope :: "string option"
  ai_state :: "string option"
  ai_sid :: "string option"

record provider_config =
  pc_clientId :: "string option"
  pc_clientSecret :: "string option"
  pc_accountsUrl :: string
  pc_oauthScopes :: "string option"
  pc_extraAuthParams :: "string option"
  pc_authorizationEndpointPath :: "string option"
  pc_tokenEndpointPath :: "string option"

record oauth_config =
  redirectUri :: string
  redirectAllowlist :: "string list"
  redirectAllowAll :: bool

record flow_options =
  baseUrl :: string
  isDev :: bool
  callbackPath :: "string option"
  cimd_enabled :: "bool option"
  cimd :: "cimd_config option"

record authorize_result =
  redirectTo :: url
  txnId :: string

text \<open>The result of a flow step: the thrown message or the value, the store, the URLs fetched.\<close>

type_synonym 'a flow_result = "(string + 'a) \<times> token_store \<times> string list"

definition isAllowedRedirect :: "platform \<Rightarrow> string \<Rightarrow> oauth_config \<Rightarrow> bool \<Rightarrow> bool" where
  "isAllowedRedirect pf uri config dev =
     (let allowed = filter (\<lambda>a. a \<noteq> []) (redirectAllowlist config @ [redirectUri config])
      in case parseUrl pf uri of
           None \<Rightarrow> False
         | Some u \<Rightarrow>
             if dev \<and> hostname u \<in> set [''localhost'', ''127.0.0.1'', ''::1''] then True
             else if redirectAllowAll config then True
             else (protocol u @ ''//'' @ host u @ pathname u) \<in> set allowed \<or> uri \<in> set allowed)"

text \<open>
  \<open>buildAuthorizationServer\<close>: both endpoints are resolved against the accounts URL, and
  either \<open>new URL\<close> may throw.
\<close>

definition buildAuthorizationServer :: "platform \<Rightarrow> provider_config \<Rightarrow> (url \<times> url) option" where
  "buildAuthorizationServer pf pc =
     (case resolveUrl pf (or_else (pc_authorizationEndpointPath pc) ''/authorize'')
             (pc_accountsUrl pc) of
        None \<Rightarrow> None
      | Some a \<Rightarrow>
          (case resolveUrl pf (or_else (pc_tokenEndpointPath pc) ''/token'') (pc_accountsUrl pc) of
             None \<Rightarrow> None
           | Some t \<Rightarrow> Some (a, t)))"

text \<open>The redirect of the dev shortcut and of the callback: \<open>code\<close>, and \<open>state\<close> when there is one.\<close>

definition redirect_with_code :: "platform \<Rightarrow> string \<Rightarrow> string \<Rightarrow> string option \<Rightarrow> url option" where
  "redirect_with_code pf safe c st =
     (case parseUrl pf safe of
        None \<Rightarrow> None
      | Some redirect \<Rightarrow>
          (let r1 = set_param ''code'' c redirect
           in Some (if truthy st then set_param ''state'' (the st) r1 else r1)))"

text \<open>
  The production branch of \<open>handleAuthorize\<close>: the authorize URL of the provider with
  this server's callback and the composite state. The serialised authorization
  endpoint is never empty, so the guard \<open>Authorization endpoint not configured\<close> has
  no case here, and parsing it again gives the URL it was serialised from.
\<close>

definition provider_redirect ::
  "platform \<Rightarrow> authorize_input \<Rightarrow> provider_config \<Rightarrow> flow_options \<Rightarrow> string \<Rightarrow> url option" where
  "provider_redirect pf input pc opts txn =
     (case buildAuthorizationServer pf pc of
        None \<Rightarrow> None
      | Some (authUrl, _) \<Rightarrow>
          (case resolveUrl pf (or_else (callbackPath opts) ''/oauth/callback'') (baseUrl opts) of
             None \<Rightarrow> None
           | Some cb \<Rightarrow>
               (let u1 = set_param ''response_type'' ''code'' authUrl;
                    u2 = set_param ''client_id'' (the (pc_clientId pc)) u1;
                    u3 = set_param ''redirect_uri'' (urlString pf cb) u2;
                    scopeToUse = or_else (pc_oauthScopes pc) (or_else (ai_requestedScope input) []);
                    u4 = (if scopeToUse \<noteq> [] then set_param ''scope'' scopeToUse u3 else u3);
                    compositeState =
                      or_else (Some (encodeState pf
                                 \<lparr>tid = Some txn, cs = ai_state input,
                                  cr = Some (ai_redirectUri input), cs_sid = ai_sid input\<rparr>)) txn;
                    u5 = set_param ''state'' compositeState u4
                in Some (if truthy (pc_extraAuthParams pc)
                         then foldl (\<lambda>u e. set_param (fst e) (snd e) u) u5
                                (parseQuery pf (the (pc_extraAuthParams pc)))
                         else u5))))"

text \<open>
  \<open>handleAuthorize\<close>. The opaque tokens that \<open>generateOpaqueToken(16)\<close> draws are the
  arguments \<open>newTxnId\<close> and \<open>newCode\<close>. A \<open>TypeError\<close> of \<open>new URL\<close> is the message
  \<open>Invalid URL\<close>.
\<close>

definition handleAuthorize ::
  "platform \<Rightarrow> cimd_env \<Rightarrow> authorize_input \<Rightarrow> token_store \<Rightarrow> provider_config \<Rightarrow> oauth_config \<Rightarrow>
     flow_options \<Rightarrow> string \<Rightarrow> string \<Rightarrow> int \<Rightarrow> authorize_result flow_result" where
  "handleAuthorize pf env input s pc oc opts newTxnId newCode now =
     (if ai_redirectUri input = [] then (Inl ''invalid_request: redirect_uri is required'', s, [])
      else if ai_codeChallenge input = [] \<or> ai_codeChallengeMethod input \<noteq> ''S256''
      then (Inl ''invalid_request: PKCE code_challenge with S256 method is required'', s, [])
      else
        (let cimdEnabled = (case cimd_enabled opts of None \<Rightarrow> True | Some b \<Rightarrow> b);
             is_cimd = (truthy (ai_clientId input) \<and> isClientIdUrl pf (the (ai_clientId input)));
             checked =
               (if is_cimd then
                  (if \<not> cimdEnabled
                   then (Inl ''invalid_client: URL-based client_id not supported'', [])
                   else (case fetchClientMetadata pf env (the (ai_clientId input)) (cimd opts) of
                           (Inl e, fetched) \<Rightarrow> (Inl (''invalid_client: '' @ e), fetched)
                         | (Inr metadata, fetched) \<Rightarrow>
                             if \<not> validateRedirectUri metadata (ai_redirectUri input)
                             then (Inl ''invalid_request: redirect_uri not registered for this client'',
                                   fetched)
                             else (Inr (), fetched)))
                else (Inr (), []))
         in case checked of
              (Inl e, fetched) \<Rightarrow> (Inl e, s, fetched)
            | (Inr _, fetched) \<Rightarrow>
                (let s1 = saveTransaction s newTxnId
                            \<lparr>codeChallenge = ai_codeChallenge input, state = ai_state input,
                             scope = ai_requestedScope input, createdAt = now,
                             sid = ai_sid input, provider = None\<rparr> None now
                 in if truthy (pc_clientId pc) \<and> truthy (pc_clientSecret pc) then
                      (case provider_redirect pf input pc opts newTxnId of
                         None \<Rightarrow> (Inl ''Invalid URL'', s1, fetched)
                       | Some u \<Rightarrow> (Inr \<lparr>redirectTo = u, txnId = newTxnId\<rparr>, s1, fetched))
                    else
                      (let s2 = saveCode s1 newCode newTxnId None now;
                           safe = (if isAllowedRedirect pf (ai_redirectUri input) oc (isDev opts)
                                   then ai_redirectUri input else redirectUri oc)
                       in case redirect_with_code pf safe newCode (ai_state input) of
                            None \<Rightarrow> (Inl ''Invalid URL'', s2, fetched)
                          | Some u \<Rightarrow>
                              (Inr \<lparr>redirectTo = u, txnId = newTxnId\<rparr>, s2, fetched)))))"

record callback_input =
  providerCode :: string
  compositeState :: string

record callback_result =
  cb_redirectTo :: url
  cb_txnId :: string
  cb_providerTokens :: provider_tokens

text \<open>
  The code exchange of the OAuth client library. \<open>oauth.authorizationCodeGrantRequest\<close>
  takes as its callback parameters only a \<open>URLSearchParams\<close> object that
  \<open>oauth.validateAuthResponse\<close> returned; given any other object it throws a
  \<open>TypeError\<close> before it sends a request. The model marks an object that went through
  the validation. \<open>refusal\<close> is the message of that \<open>TypeError\<close>, and \<open>reply\<close> is what
  the exchange with the provider's token endpoint gives when the request is sent.
\<close>

record callback_parameters =
  cbp_entries :: "(string \<times> string) list"
  cbp_validated :: bool

definition authorizationCodeGrantRequest ::
  "string \<Rightarrow> callback_parameters \<Rightarrow> upstream_reply \<Rightarrow> upstream_reply" where
  "authorizationCodeGrantRequest refusal callbackParameters reply =
     (if cbp_validated callbackParameters then reply else RequestFailed refusal)"

text \<open>
  \<open>handleProviderCallback\<close>. It builds the callback parameters itself, as a new
  \<open>URLSearchParams\<close> with the provider's code, and does not call
  \<open>validateAuthResponse\<close>. \<open>newCode\<close> is the token that \<open>generateOpaqueToken(24)\<close>
  draws. Everything from the exchange on runs inside the \<open>try\<close> block, whose handler
  rethrows a provider error body as \<open>provider_token_error\<close> and any other exception as
  \<open>fetch_failed\<close>.
\<close>

definition handleProviderCallback ::
  "platform \<Rightarrow> callback_input \<Rightarrow> token_store \<Rightarrow> provider_config \<Rightarrow> oauth_config \<Rightarrow> flow_options \<Rightarrow>
     string \<Rightarrow> upstream_reply \<Rightarrow> string \<Rightarrow> int \<Rightarrow> (string + callback_result) \<times> token_store" where
  "handleProviderCallback pf input s pc oc opts refusal reply newCode now =
     (let decoded = (case decodeState pf (compositeState input) of
                       None \<Rightarrow> \<lparr>tid = None, cs = None, cr = None, cs_sid = None\<rparr>
                     | Some d \<Rightarrow> d);
          txn_id = or_else (tid decoded) (compositeState input)
      in case getTransaction s txn_id now of
           (s1, None) \<Rightarrow> (Inl ''unknown_txn'', s1)
         | (s1, Some txn) \<Rightarrow>
             if resolveUrl pf (or_else (callbackPath opts) ''/oauth/callback'') (baseUrl opts) = None
                \<or> buildAuthorizationServer pf pc = None
             then (Inl ''Invalid URL'', s1)
             else
               (let callbackParams =
                      \<lparr>cbp_entries = sp_set ''code'' (providerCode input) [],
                       cbp_validated = False\<rparr>
                in case authorizationCodeGrantRequest refusal callbackParams reply of
                  ResponseBodyError e d \<Rightarrow>
                    (Inl (trim (''provider_token_error: '' @ e @ '' '' @ or_else d [])), s1)
                | RequestFailed m \<Rightarrow> (Inl (''fetch_failed: '' @ m), s1)
                | TokenResponse res \<Rightarrow>
                    if \<not> truthy (u_access_token res)
                    then (Inl ''fetch_failed: provider_no_token'', s1)
                    else
                      (let expiresIn = (case u_expires_in res of None \<Rightarrow> 3600 | Some n \<Rightarrow> n);
                           providerTokens =
                             \<lparr>access_token = the (u_access_token res),
                              refresh_token = u_refresh_token res,
                              expires_at = Some (now + expiresIn * 1000),
                              scopes = Some (split_words [] (or_else (u_scope res) []))\<rparr>;
                           s2 = saveTransaction s1 txn_id (txn\<lparr>provider := Some providerTokens\<rparr>)
                                  None now;
                           s3 = saveCode s2 newCode txn_id None now;
                           clientRedirect = or_else (cr decoded) (redirectUri oc);
                           safe = (if isAllowedRedirect pf clientRedirect oc (isDev opts)
                                   then clientRedirect else redirectUri oc)
                       in case redirect_with_code pf safe newCode (cs decoded) of
                            None \<Rightarrow> (Inl ''fetch_failed: Invalid URL'', s3)
                          | Some u \<Rightarrow>
                              (Inr \<lparr>cb_redirectTo = u, cb_txnId = txn_id,
                                    cb_providerTokens = providerTokens\<rparr>, s3))))"

text \<open>
  The client check of \<open>handleAuthorize\<close> passes: the client is not a CIMD client, or CIMD
  is enabled, its metadata was fetched and the redirect URI is registered in it.
\<close>

definition client_accepted :: "platform \<Rightarrow> cimd_env \<Rightarrow> authorize_input \<Rightarrow> flow_options \<Rightarrow> bool" where
  "client_accepted pf env input opts =
     (if truthy (ai_clientId input) \<and> isClientIdUrl pf (the (ai_clientId input)) then
        cimd_enabled opts \<noteq> Some False \<and>
        (case fst (fetchClientMetadata pf env (the (ai_clientId input)) (cimd opts)) of
           Inl e \<Rightarrow> False
         | Inr metadata \<Rightarrow> validateRedirectUri metadata (ai_redirectUri input))
      else True)"

text \<open>A platform and a network for examples: four URLs parse, nothing can be fetched.\<close>

definition url_of :: "string \<Rightarrow> string \<Rightarrow> string \<Rightarrow> url" where
  "url_of pr h p = \<lparr>protocol = pr, hostname = h, host = h, pathname = p, searchParams = []\<rparr>"

definition pf1 :: platform where
  "pf1 =
     \<lparr>parseUrl = (\<lambda>s.
        if s = ''https://localhost/client.json''
          then Some (url_of ''https:'' ''localhost'' ''/client.json'')
        else if s = ''https://app.example.com/callback''
          then Some (url_of ''https:'' ''app.example.com'' ''/callback'')
        else if s = ''https://evil.example.net/steal''
          then Some (url_of ''https:'' ''evil.example.net'' ''/steal'')
        else None),
      resolveUrl = (\<lambda>p b.
        if b = ''https://mcp.example.com'' \<or> b = ''https://accounts.example.com''
          then Some (url_of ''https:'' (drop 8 b) p)
        else None),
      urlString = (\<lambda>u. protocol u @ ''//'' @ host u @ pathname u),
      encodeState = (\<lambda>c. ''state''),
      decodeState = (\<lambda>s.
        if s = ''composite-1''
          then Some \<lparr>tid = Some ''txn-1'', cs = Some ''st'',
                     cr = Some ''https://evil.example.net/steal'', cs_sid = None\<rparr>
        else None),
      parseQuery = (\<lambda>s. [])\<rparr>"

definition env1 :: cimd_env where
  "env1 = \<lparr>net = (\<lambda>u. FetchError ''unreachable''), parseJson = (\<lambda>s. None),
           safeParse = (\<lambda>j. Inl ''invalid'')\<rparr>"

definition input1 :: authorize_input where
  "input1 =
     \<lparr>ai_clientId = Some ''https://localhost/client.json'', ai_codeChallenge = ''challenge-1'',
      ai_codeChallengeMethod = ''S256'', ai_redirectUri = ''https://evil.example.net/steal'',
      ai_requestedScope = None, ai_state = Some ''st'', ai_sid = None\<rparr>"

definition input2 :: authorize_input where
  "input2 = input1\<lparr>ai_clientId := Some ''static-client''\<rparr>"

definition pc_dev :: provider_config where
  "pc_dev =
     \<lparr>pc_clientId = None, pc_clientSecret = None,
      pc_accountsUrl = ''https://accounts.example.com'', pc_oauthScopes = None,
      pc_extraAuthParams = None, pc_authorizationEndpointPath = None,
      pc_tokenEndpointPath = None\<rparr>"

definition pc_prod :: provider_config where
  "pc_prod = pc_dev\<lparr>pc_clientId := Some ''cid'', pc_clientSecret := Some ''secret''\<rparr>"

definition oc1 :: oauth_config where
  "oc1 = \<lparr>redirectUri = ''https://app.example.com/callback'', redirectAllowlist = [],
          redirectAllowAll = False\<rparr>"

definition opts1 :: flow_options where
  "opts1 = \<lparr>baseUrl = ''https://mcp.example.com'', isDev = False, callbackPath = None,
            cimd_enabled = None, cimd = None\<rparr>"

definition callback1 :: callback_input where
  "callback1 = \<lparr>providerCode = ''provider-code'', compositeState = ''composite-1''\<rparr>"

definition code_reply :: upstream_reply where
  "code_reply =
     TokenResponse \<lparr>u_access_token = Some ''prov-access-1'',
       u_refresh_token = Some ''prov-refresh-1'', u_expires_in = None, u_scope = Some ''read''\<rparr>"

text \<open>The redirect target with the code and, when there is one, the echoed state.\<close>

definition with_code_and_state :: "string \<Rightarrow> string option \<Rightarrow> url \<Rightarrow> url" where
  "with_code_and_state c st u =
     (if truthy st then set_param ''state'' (the st) (set_param ''code'' c u)
      else set_param ''code'' c u)"

text \<open>The transaction id and the client's redirect URI that the callback reads from the state.\<close>

definition callback_txn_id :: "platform \<Rightarrow> callback_input \<Rightarrow> string" where
  "callback_txn_id pf input =
     or_else (case decodeState pf (compositeState input) of None \<Rightarrow> None | Some d \<Rightarrow> tid d)
       (compositeState input)"

definition callback_client_redirect :: "platform \<Rightarrow> callback_input \<Rightarrow> oauth_config \<Rightarrow> string" where
  "callback_client_redirect pf input oc =
     or_else (case decodeState pf (compositeState input) of None \<Rightarrow> None | Some d \<Rightarrow> cr d)
       (redirectUri oc)"


section \<open>MCP dispatcher: tools/call and cancellation\<close>

text \<open>
  \<open>handleToolsCall\<close> and \<open>handleMcpNotification\<close> of \<^verbatim>\<open>shared/mcp/dispatcher.ts\<close>, and
  \<open>executeSharedTool\<close> of \<^verbatim>\<open>shared/tools/registry.ts\<close>. An \<open>AbortController\<close> is an
  entry of the list \<open>controllers\<close> (its \<open>aborted\<close> flag; the address is the
  position), and the cancellation registry maps a request id to an address. The context
  may come without a registry.
\<close>

datatype request_id = IdStr string | IdNum int

record dispatch_state =
  ds_session :: "mcp_session_state option"
  controllers :: "bool list"
  cancellationRegistry :: "(request_id \<times> nat) list option"

record notification_params =
  np_requestId :: "request_id option"
  np_reason :: "string option"

record notification =
  n_method :: string
  n_params :: "notification_params option"

definition signal_aborted :: "dispatch_state \<Rightarrow> nat \<Rightarrow> bool" where
  "signal_aborted st a = (a < length (controllers st) \<and> controllers st ! a)"

definition handleMcpNotification ::
  "string \<Rightarrow> notification_params option \<Rightarrow> dispatch_state \<Rightarrow> bool \<times> dispatch_state" where
  "handleMcpNotification method params st =
     (if method = ''notifications/initialized'' then
        (True, (case ds_session st of
                  None \<Rightarrow> st
                | Some session \<Rightarrow> st\<lparr>ds_session := Some (session\<lparr>ss_initialized := True\<rparr>)\<rparr>))
      else if method = ''notifications/cancelled'' then
        (case (case params of None \<Rightarrow> None | Some p \<Rightarrow> np_requestId p) of
           None \<Rightarrow> (True, st)
         | Some rid \<Rightarrow>
             (case cancellationRegistry st of
                None \<Rightarrow> (True, st)
              | Some reg \<Rightarrow>
                  (case jm_get reg rid of
                     None \<Rightarrow> (True, st)
                   | Some a \<Rightarrow> (True, st\<lparr>controllers := (controllers st)[a := True]\<rparr>))))
      else (False, st))"

text \<open>
  A tool: its name, whether it declares an output schema, \<open>inputSchema.safeParse\<close> (the
  joined error text on the left) and its handler. The handler is code of the tool; what
  the model keeps of a run is how it ends, given whether the abort signal fired while it
  ran: the promise resolves with a result or rejects with an error.
\<close>

record tool_result =
  content :: "string list"
  isError :: bool
  structuredContent :: "json option"

datatype tool_outcome = Resolves tool_result | Rejects string

record registered_tool =
  t_name :: string
  t_outputSchema :: bool
  t_safeParse :: "json \<Rightarrow> string + json"
  t_handler :: "json \<Rightarrow> bool \<Rightarrow> tool_outcome"

definition getSharedTool :: "registered_tool list \<Rightarrow> string \<Rightarrow> registered_tool option" where
  "getSharedTool tools nm = find (\<lambda>t. t_name t = nm) tools"

definition text_error :: "string \<Rightarrow> tool_result" where
  "text_error t = \<lparr>content = [t], isError = True, structuredContent = None\<rparr>"

text \<open>What \<open>executeSharedTool\<close> makes of the handler's outcome.\<close>

definition after_handler :: "registered_tool \<Rightarrow> tool_outcome \<Rightarrow> bool \<Rightarrow> string + tool_result" where
  "after_handler tool outcome aborted_now =
     (case outcome of
        Resolves r \<Rightarrow>
          if t_outputSchema tool \<and> \<not> isError r \<and> structuredContent r = None
          then Inr (text_error
                 ''Tool with outputSchema must return structuredContent (unless isError is true)'')
          else Inr r
      | Rejects m \<Rightarrow>
          if aborted_now then Inr (text_error ''Operation was cancelled'')
          else Inr (text_error (''Tool error: '' @ m)))"

text \<open>
  \<open>executeSharedTool\<close>, with the thrown message on the left. \<open>aborted_before\<close> is the
  signal when the call starts, \<open>aborted_after\<close> the signal when the handler has ended.
\<close>

definition executeSharedTool ::
  "registered_tool list \<Rightarrow> string \<Rightarrow> json \<Rightarrow> bool \<Rightarrow> bool \<Rightarrow> string + tool_result" where
  "executeSharedTool tools nm args aborted_before aborted_after =
     (case getSharedTool tools nm of
        None \<Rightarrow> Inr (text_error (''Unknown tool: '' @ nm))
      | Some tool \<Rightarrow>
          if aborted_before then Inr (text_error ''Operation was cancelled'')
          else (case t_safeParse tool args of
                  Inl errors \<Rightarrow> Inr (text_error (''Invalid input: '' @ errors))
                | Inr d \<Rightarrow> after_handler tool (t_handler tool d aborted_after) aborted_after))"

text \<open>\<open>params?.arguments || {}\<close>: \<open>null\<close>, \<open>false\<close>, \<open>0\<close> and the empty string are falsy.\<close>

definition json_truthy :: "json \<Rightarrow> bool" where
  "json_truthy j =
     (case j of
        JNull \<Rightarrow> False
      | JBool b \<Rightarrow> b
      | JNum n \<Rightarrow> n \<noteq> 0
      | JStr t \<Rightarrow> t \<noteq> []
      | _ \<Rightarrow> True)"

record tools_call_params =
  tc_name :: "string option"
  tc_arguments :: "json option"

definition InternalError :: int where
  "InternalError = - 32603"

definition cancelled_error :: rpc_error where
  "cancelled_error = \<lparr>code = InternalError, message = ''Request was cancelled''\<rparr>"

text \<open>The notifications that the server handles while the handler of a call is suspended.\<close>

definition deliver :: "dispatch_state \<Rightarrow> notification list \<Rightarrow> dispatch_state" where
  "deliver st ns = foldl (\<lambda>st' n. snd (handleMcpNotification (n_method n) (n_params n) st')) st ns"

text \<open>The start of \<open>handleToolsCall\<close>: a new controller, registered under the request id.\<close>

definition install :: "dispatch_state \<Rightarrow> request_id option \<Rightarrow> dispatch_state" where
  "install st requestId =
     st\<lparr>controllers := controllers st @ [False],
        cancellationRegistry :=
          (case (requestId, cancellationRegistry st) of
             (Some rid, Some reg) \<Rightarrow> Some (jm_set rid (length (controllers st)) reg)
           | _ \<Rightarrow> cancellationRegistry st)\<rparr>"

text \<open>The \<open>finally\<close> clause: the entry of the request id is deleted.\<close>

definition uninstall :: "dispatch_state \<Rightarrow> request_id option \<Rightarrow> dispatch_state" where
  "uninstall st requestId =
     st\<lparr>cancellationRegistry :=
          (case (requestId, cancellationRegistry st) of
             (Some rid, Some reg) \<Rightarrow> Some (jm_delete rid reg)
           | _ \<Rightarrow> cancellationRegistry st)\<rparr>"

text \<open>The abort signal of the call when its handler has ended.\<close>

definition signal_at_end :: "dispatch_state \<Rightarrow> request_id option \<Rightarrow> notification list \<Rightarrow> bool" where
  "signal_at_end st requestId during =
     signal_aborted (deliver (install st requestId) during) (length (controllers st))"

text \<open>
  \<open>handleToolsCall\<close>. \<open>during\<close> are the notifications delivered while the handler is
  suspended. The \<open>catch\<close> clause turns an exception of \<open>executeSharedTool\<close> into the
  cancellation error when the signal is aborted, and into \<open>Tool execution failed\<close>
  otherwise.
\<close>

definition handleToolsCall ::
  "registered_tool list \<Rightarrow> tools_call_params option \<Rightarrow> request_id option \<Rightarrow> dispatch_state \<Rightarrow>
     notification list \<Rightarrow> (rpc_error + tool_result) \<times> dispatch_state" where
  "handleToolsCall tools params requestId st during =
     (let toolName = or_else (case params of None \<Rightarrow> None | Some p \<Rightarrow> tc_name p) [];
          toolArgs = (case (case params of None \<Rightarrow> None | Some p \<Rightarrow> tc_arguments p) of
                        None \<Rightarrow> JObj []
                      | Some a \<Rightarrow> if json_truthy a then a else JObj []);
          a = length (controllers st);
          st1 = install st requestId;
          st2 = deliver st1 during;
          aborted_after = signal_aborted st2 a;
          outcome =
            (case executeSharedTool tools toolName toolArgs (signal_aborted st1 a) aborted_after of
               Inr r \<Rightarrow> Inr r
             | Inl m \<Rightarrow>
                 if aborted_after then Inl cancelled_error
                 else Inl \<lparr>code = InternalError,
                           message = ''Tool execution failed: '' @ m\<rparr>)
      in (outcome, uninstall st2 requestId))"

text \<open>A notification is a cancellation of a request id, whatever its reason.\<close>

definition cancels :: "request_id \<Rightarrow> notification \<Rightarrow> bool" where
  "cancels rid n =
     (n_method n = ''notifications/cancelled'' \<and>
      (case n_params n of None \<Rightarrow> False | Some p \<Rightarrow> np_requestId p = Some rid))"

definition cancel_of :: "request_id \<Rightarrow> notification" where
  "cancel_of rid =
     \<lparr>n_method = ''notifications/cancelled'',
      n_params = Some \<lparr>np_requestId = Some rid, np_reason = Some ''abort''\<rparr>\<rparr>"

text \<open>
  Two tools for examples, neither with an output schema. The handler of \<open>slow\<close> resolves
  whatever the signal says. The handler of \<open>sleep\<close> honours the signal: it rejects when
  the signal fired while it waited, and resolves otherwise.
\<close>

definition done_result :: tool_result where
  "done_result = \<lparr>content = [''done''], isError = False, structuredContent = None\<rparr>"

definition slow_tool :: registered_tool where
  "slow_tool = \<lparr>t_name = ''slow'', t_outputSchema = False, t_safeParse = (\<lambda>a. Inr a),
                t_handler = (\<lambda>a aborted. Resolves done_result)\<rparr>"

definition sleep_tool :: registered_tool where
  "sleep_tool = \<lparr>t_name = ''sleep'', t_outputSchema = False, t_safeParse = (\<lambda>a. Inr a),
                 t_handler = (\<lambda>a aborted. if aborted then Rejects ''This operation was aborted''
                                             else Resolves done_result)\<rparr>"

definition idle_state :: dispatch_state where
  "idle_state = \<lparr>ds_session = None, controllers = [], cancellationRegistry = Some []\<rparr>"

definition slow_call :: tools_call_params where
  "slow_call = \<lparr>tc_name = Some ''slow'', tc_arguments = None\<rparr>"


section \<open>Protocol version negotiation: results\<close>

lemma negotiate_supported:
  "negotiate v = (if v \<in> {''2025-06-18'', ''2025-03-26'', ''2024-11-05'', ''2024-10-07''}
                  then v else ''2025-06-18'')"
  by (simp add: negotiate_def SUPPORTED_PROTOCOL_VERSIONS_def LATEST_PROTOCOL_VERSION_def)

text \<open>
  Claim C4, as the code has it. The versions that \<open>initialize\<close> echoes are exactly
  2025-06-18, 2025-03-26, 2024-11-05 and 2024-10-07. For a request whose
  \<open>protocolVersion\<close> is one of these four the response carries that version; for every
  other request (2025-11-25 among them, and a missing or empty version) the response
  carries the latest version of the dispatcher, 2025-06-18. The call succeeds in every
  case and the session state records the negotiated version.
\<close>

theorem C4_initialize_negotiation:
  "set SUPPORTED_PROTOCOL_VERSIONS =
     {''2025-06-18'', ''2025-03-26'', ''2024-11-05'', ''2024-10-07''} \<and>
   (\<exists>st r. handleInitialize mt mi (Some \<lparr>clientInfo = ci, protocolVersion = Some v\<rparr>) cfg
              = (st, Inr r) \<and>
            res_protocolVersion r =
              (if v \<in> set SUPPORTED_PROTOCOL_VERSIONS then v else ''2025-06-18'') \<and>
            ss_protocolVersion st = Some (res_protocolVersion r))"
  by (simp add: handleInitialize_def requestedVersion_def or_else_def negotiate_def
      SUPPORTED_PROTOCOL_VERSIONS_def LATEST_PROTOCOL_VERSION_def Let_def)

text \<open>
  Claim C4 as stated fails: a client offering 2025-11-25 is not echoed that version,
  it is answered with 2025-06-18.
\<close>

theorem C4_counterexample:
  "snd (handleInitialize ''srv'' ''''
          (Some \<lparr>clientInfo = None, protocolVersion = Some ''2025-11-25''\<rparr>)
          \<lparr>cfg_title = ''srv'', cfg_version = ''1.0.0'', cfg_instructions = ''''\<rparr>)
     = Inr \<lparr>res_protocolVersion = ''2025-06-18'', res_serverName = ''srv'',
            res_serverVersion = ''1.0.0'', res_instructions = ''''\<rparr>
   \<and> ''2025-11-25'' \<notin> set SUPPORTED_PROTOCOL_VERSIONS"
  by (simp add: handleInitialize_def requestedVersion_def or_else_def negotiate_def
      SUPPORTED_PROTOCOL_VERSIONS_def LATEST_PROTOCOL_VERSION_def Let_def)

section \<open>Pagination cursors: results\<close>

lemma parseCursor_total: "\<exists>n. parseCursor dec cursor = Inr n"
  by (simp add: parseCursor_def split: option.split sum.split)

lemma parseCursor_malformed:
  "\<not> numeric_offset dec cursor \<Longrightarrow> parseCursor dec cursor = Inr 0"
proof (cases cursor)
  case None
  then show ?thesis by (simp add: parseCursor_def)
next
  case (Some c)
  assume m: "\<not> numeric_offset dec cursor"
  have "parseCursor_try dec c = Inr 0 \<or> (\<exists>e. parseCursor_try dec c = Inl e)"
  proof (cases "dec c")
    case None
    then show ?thesis by (simp add: parseCursor_try_def)
  next
    case (Some j)
    note dj = this
    show ?thesis
    proof (cases j)
      case (JObj fs)
      with m dj \<open>cursor = Some c\<close> show ?thesis
        by (cases "map_of fs ''offset''")
           (auto simp: parseCursor_try_def numeric_offset_def split: json.splits)
    qed (simp_all add: parseCursor_try_def dj)
  qed
  then show ?thesis using Some by (auto simp: parseCursor_def)
qed

lemma slice_first_page: "slice items 0 (of_nat limit) = take limit items"
  by (simp add: slice_def)

text \<open>
  Claim C10. \<open>parseCursor\<close> returns an offset for every cursor and every decoder (it never
  fails). A cursor that is missing, or that does not decode to a JSON object with a
  numeric \<open>offset\<close>, parses to offset 0, and \<open>paginateArray\<close> then returns the first
  page: the first \<open>limit\<close> items, with a next cursor for offset \<open>limit\<close> exactly when
  items remain.
\<close>

theorem C10_parseCursor_total:
  "(\<exists>n. parseCursor dec cursor = Inr n) \<and>
   (\<not> numeric_offset dec cursor \<longrightarrow>
      parseCursor dec cursor = Inr 0 \<and>
      paginateArray dec enc items cursor limit =
        Inr \<lparr>data = take limit items,
             nextCursor = (if limit < length items
                           then Some (createCursor enc (of_nat limit)) else None)\<rparr>)"
proof (intro conjI impI)
  show "\<exists>n. parseCursor dec cursor = Inr n" by (rule parseCursor_total)
next
  assume m: "\<not> numeric_offset dec cursor"
  then show "parseCursor dec cursor = Inr 0" by (rule parseCursor_malformed)
next
  assume m: "\<not> numeric_offset dec cursor"
  have p: "parseCursor dec cursor = Inr 0" using m by (rule parseCursor_malformed)
  show "paginateArray dec enc items cursor limit =
        Inr \<lparr>data = take limit items,
             nextCursor = (if limit < length items
                           then Some (createCursor enc (of_nat limit)) else None)\<rparr>"
    by (simp add: paginateArray_def p Let_def slice_first_page)
qed

theorem C10_witness:
  "\<not> numeric_offset dec_example (Some ''bnVsbA=='') \<and>
   \<not> numeric_offset dec_example (Some ''not base64 json'') \<and>
   parseCursor dec_example (Some ''bnVsbA=='') = Inr 0 \<and>
   paginateArray dec_example enc_example [10, 20, 30 :: nat] (Some ''not base64 json'') 2 =
     Inr \<lparr>data = [10, 20], nextCursor = Some ''eyJvZmZzZXQiOjJ9''\<rparr>"
proof -
  have a: "\<not> numeric_offset dec_example (Some ''bnVsbA=='')"
    by (simp add: numeric_offset_def dec_example_def)
  have b: "\<not> numeric_offset dec_example (Some ''not base64 json'')"
    by (simp add: numeric_offset_def dec_example_def)
  from a b
    C10_parseCursor_total [of dec_example "Some ''bnVsbA==''" enc_example "[]::nat list" 0]
    C10_parseCursor_total [of dec_example "Some ''not base64 json''" enc_example
      "[10, 20, 30 :: nat]" 2]
  show ?thesis by (simp add: createCursor_def enc_example_def)
qed

section \<open>The session store: results\<close>

lemma jm_get_jm_delete: "jm_get (jm_delete k m) k' = (if k' = k then None else jm_get m k')"
  by (induction m) (auto simp: jm_get_def jm_delete_def)

lemma jm_get_jm_set: "jm_get (jm_set k v m) k' = (if k' = k then Some v else jm_get m k')"
  by (induction m) (auto simp: jm_get_def)

lemma set_jm_delete: "set (jm_delete k m) \<subseteq> set m"
  by (auto simp: jm_delete_def)

lemma set_jm_set: "set (jm_set k v m) \<subseteq> insert (k, v) (set m)"
  by (induction m) auto

lemma count_jm_delete: "countByApiKey (jm_delete i ss) k now \<le> countByApiKey ss k now"
  unfolding countByApiKey_def jm_delete_def
  by (induction ss) auto

lemma count_jm_set: "countByApiKey (jm_set i r ss) k now \<le> Suc (countByApiKey ss k now)"
  unfolding countByApiKey_def
  by (induction ss) auto

lemma count_jm_set_other:
  "\<not> live_for k now r \<Longrightarrow> countByApiKey (jm_set i r ss) k now \<le> countByApiKey ss k now"
  unfolding countByApiKey_def
  by (induction ss) auto

lemma count_evict: "countByApiKey (evict_oldest_session ss) k now \<le> countByApiKey ss k now"
  by (simp add: evict_oldest_session_def count_jm_delete split: list.split)

lemma count_delete_present:
  "(i, x) \<in> set ss \<Longrightarrow> live_for k now x \<Longrightarrow>
   countByApiKey (jm_delete i ss) k now < countByApiKey ss k now"
  unfolding countByApiKey_def jm_delete_def
proof (induction ss)
  case Nil
  then show ?case by simp
next
  case (Cons e ss)
  have le: "length (filter (live_for k now) (map snd (filter (\<lambda>e. fst e \<noteq> i) ss)))
            \<le> length (filter (live_for k now) (map snd ss))"
    using count_jm_delete [of i ss k now] by (simp add: countByApiKey_def jm_delete_def)
  show ?case
  proof (cases "e = (i, x)")
    case True
    with Cons.prems le show ?thesis by auto
  next
    case False
    with Cons show ?thesis by auto
  qed
qed

lemma oldest_step_simps:
  "oldest_step k now None x = (if live_for k now x then Some x else None)"
  "oldest_step k now (Some old) x =
     (if live_for k now x \<and> last_accessed x < last_accessed old then Some x else Some old)"
  by (simp_all add: oldest_step_def)

lemma foldl_oldest_acc:
  "foldl (oldest_step k now) (Some a) xs = Some old \<Longrightarrow>
   (old = a \<or> old \<in> set xs \<and> live_for k now old) \<and> last_accessed old \<le> last_accessed a \<and>
   (\<forall>x \<in> set xs. live_for k now x \<longrightarrow> last_accessed old \<le> last_accessed x)"
proof (induction xs arbitrary: a)
  case Nil
  then show ?case by simp
next
  case (Cons y ys)
  show ?case
  proof (cases "live_for k now y \<and> last_accessed y < last_accessed a")
    case True
    with Cons.prems have "foldl (oldest_step k now) (Some y) ys = Some old"
      by (simp add: oldest_step_simps)
    from Cons.IH [OF this] True show ?thesis by auto
  next
    case False
    with Cons.prems have "foldl (oldest_step k now) (Some a) ys = Some old"
      by (auto simp: oldest_step_simps)
    from Cons.IH [OF this] False show ?thesis by auto
  qed
qed

lemma foldl_oldest_Some: "\<exists>old. foldl (oldest_step k now) (Some a) xs = Some old"
  by (induction xs arbitrary: a) (auto simp: oldest_step_simps)

lemma foldl_oldest_None:
  "foldl (oldest_step k now) None xs = Some old \<Longrightarrow>
   old \<in> set xs \<and> live_for k now old \<and>
   (\<forall>x \<in> set xs. live_for k now x \<longrightarrow> last_accessed old \<le> last_accessed x)"
proof (induction xs)
  case Nil
  then show ?case by simp
next
  case (Cons y ys)
  show ?case
  proof (cases "live_for k now y")
    case True
    with Cons.prems have "foldl (oldest_step k now) (Some y) ys = Some old"
      by (simp add: oldest_step_simps)
    from foldl_oldest_acc [OF this] True show ?thesis by auto
  next
    case False
    with Cons show ?thesis by (auto simp: oldest_step_simps)
  qed
qed

lemma foldl_oldest_exists:
  "\<exists>x \<in> set xs. live_for k now x \<Longrightarrow> \<exists>old. foldl (oldest_step k now) None xs = Some old"
proof (induction xs)
  case Nil
  then show ?case by simp
next
  case (Cons y ys)
  then show ?case by (cases "live_for k now y") (auto simp: foldl_oldest_Some oldest_step_simps)
qed

lemma find_oldest_min:
  "find_oldest ss k now = Some old \<Longrightarrow>
   old \<in> snd ` set ss \<and> live_for k now old \<and>
   (\<forall>x \<in> snd ` set ss. live_for k now x \<longrightarrow> last_accessed old \<le> last_accessed x)"
  unfolding find_oldest_def using foldl_oldest_None [of k now "map snd ss" old] by simp

lemma find_oldest_exists:
  "0 < countByApiKey ss k now \<Longrightarrow> \<exists>old. find_oldest ss k now = Some old"
proof -
  assume "0 < countByApiKey ss k now"
  then have "filter (live_for k now) (map snd ss) \<noteq> []"
    unfolding countByApiKey_def by (metis length_greater_0_conv)
  then have "\<exists>x \<in> set (map snd ss). live_for k now x"
    by (metis filter_False)
  then show ?thesis unfolding find_oldest_def by (rule foldl_oldest_exists)
qed

lemma keyed_mem: "keyed ss \<Longrightarrow> x \<in> snd ` set ss \<Longrightarrow> (sessionId x, x) \<in> set ss"
  by (auto simp: keyed_def list_all_iff)

lemma count_deleteOldest:
  assumes "keyed ss" "0 < countByApiKey ss k now"
  shows "countByApiKey (deleteOldestByApiKey ss k now) k now < countByApiKey ss k now"
proof -
  from find_oldest_exists [OF assms(2)] obtain old where o: "find_oldest ss k now = Some old" ..
  from find_oldest_min [OF o] keyed_mem [OF assms(1)]
  have "(sessionId old, old) \<in> set ss" "live_for k now old" by auto
  then show ?thesis using o by (simp add: deleteOldestByApiKey_def count_delete_present)
qed

lemma count_deleteOldest_other:
  "countByApiKey (deleteOldestByApiKey ss k now) k' now \<le> countByApiKey ss k' now"
  by (simp add: deleteOldestByApiKey_def count_jm_delete split: option.split)

lemma keyed_jm_delete: "keyed ss \<Longrightarrow> keyed (jm_delete k ss)"
  by (auto simp: keyed_def jm_delete_def list_all_iff)

lemma keyed_jm_set: "keyed ss \<Longrightarrow> sessionId r = k \<Longrightarrow> keyed (jm_set k r ss)"
  using set_jm_set [of k r ss] by (auto simp: keyed_def list_all_iff)

lemma keyed_evict: "keyed ss \<Longrightarrow> keyed (evict_oldest_session ss)"
  by (simp add: evict_oldest_session_def keyed_jm_delete split: list.split)

lemma keyed_deleteOldest: "keyed ss \<Longrightarrow> keyed (deleteOldestByApiKey ss k now)"
  by (simp add: deleteOldestByApiKey_def keyed_jm_delete split: option.split)

lemma jm_get_evict_None: "jm_get ss k = None \<Longrightarrow> jm_get (evict_oldest_session ss) k = None"
  by (simp add: evict_oldest_session_def jm_get_jm_delete split: list.split)


text \<open>Every operation of the session store keeps the keys equal to the ids of the records.\<close>

lemma keyed_operations:
  assumes "keyed ss"
  shows "keyed (put ss i v ttl now)" "keyed (update ss i p now)" "keyed (ensure ss i ttl now)"
    "keyed (fst (get_session ss i now))" "keyed (delete_session ss i)"
    "keyed (cleanup_sessions ss now)"
proof -
  have at: "sessionId x = i" if "jm_get ss i = Some x" for x
  proof -
    from that have "(i, x) \<in> set ss" by (simp add: jm_get_def map_of_SomeD)
    with assms show ?thesis by (fastforce simp: keyed_def list_all_iff)
  qed
  show "keyed (put ss i v ttl now)" using assms by (simp add: put_def keyed_jm_set)
  have ap: "sessionId (apply_patch x p) = sessionId x" for x
    by (simp add: apply_patch_def)
  show "keyed (update ss i p now)"
  proof (cases "jm_get ss i")
    case None
    with assms show ?thesis by (simp add: update_def)
  next
    case (Some x)
    with assms at [OF Some] show ?thesis by (simp add: update_def keyed_jm_set ap)
  qed
  show "keyed (ensure ss i ttl now)"
  proof (cases "jm_get ss i")
    case None
    with assms show ?thesis by (simp add: ensure_def keyed_jm_set keyed_evict)
  next
    case (Some x)
    with assms at [OF Some] show ?thesis by (simp add: ensure_def keyed_jm_set)
  qed
  show "keyed (fst (get_session ss i now))"
  proof (cases "jm_get ss i")
    case None
    with assms show ?thesis by (simp add: get_session_def)
  next
    case (Some x)
    with assms at [OF Some] show ?thesis
      by (simp add: get_session_def Let_def keyed_jm_set keyed_jm_delete)
  qed
  show "keyed (delete_session ss i)" using assms by (simp add: delete_session_def keyed_jm_delete)
  show "keyed (cleanup_sessions ss now)"
    using assms by (auto simp: cleanup_sessions_def keyed_def list_all_iff)
qed

text \<open>The example store, evaluated.\<close>

lemma five_sessions_eval:
  "five_sessions =
     [(''s1'', \<lparr>sessionId = ''s1'', apiKey = Some ''k'', s_rs_access_token = None,
         s_rs_refresh_token = None, s_provider = None, s_created_at = 1, last_accessed = 1,
         initialized = Some False, s_protocolVersion = None, expiresAt = 1001\<rparr>),
      (''s2'', \<lparr>sessionId = ''s2'', apiKey = Some ''k'', s_rs_access_token = None,
         s_rs_refresh_token = None, s_provider = None, s_created_at = 2, last_accessed = 2,
         initialized = Some False, s_protocolVersion = None, expiresAt = 1002\<rparr>),
      (''s3'', \<lparr>sessionId = ''s3'', apiKey = Some ''k'', s_rs_access_token = None,
         s_rs_refresh_token = None, s_provider = None, s_created_at = 3, last_accessed = 3,
         initialized = Some False, s_protocolVersion = None, expiresAt = 1003\<rparr>),
      (''s4'', \<lparr>sessionId = ''s4'', apiKey = Some ''k'', s_rs_access_token = None,
         s_rs_refresh_token = None, s_provider = None, s_created_at = 4, last_accessed = 4,
         initialized = Some False, s_protocolVersion = None, expiresAt = 1004\<rparr>),
      (''s5'', \<lparr>sessionId = ''s5'', apiKey = Some ''k'', s_rs_access_token = None,
         s_rs_refresh_token = None, s_provider = None, s_created_at = 5, last_accessed = 5,
         initialized = Some False, s_protocolVersion = None, expiresAt = 1005\<rparr>)]"
  by (simp add: five_sessions_def create_def countByApiKey_def live_for_def
      MAX_SESSIONS_PER_API_KEY_def evict_oldest_session_def MAX_SESSIONS_def Let_def)

text \<open>
  Claim C6, as the code has it. \<open>create\<close> enforces the cap of
  \<open>MAX_SESSIONS_PER_API_KEY\<close> = 5 live sessions per fingerprint: on a store whose keys
  are the ids of its records, if the fingerprint has at most 5 live sessions before
  \<open>create\<close> it has at most 5 after it, and no other fingerprint gains a session. When
  the fingerprint has 5 live sessions, \<open>create\<close> first evicts a live session of that
  fingerprint whose \<open>last_accessed\<close> is the smallest: that session no longer resolves
  afterwards (unless the new session takes its id). The cap is the work of \<open>create\<close>
  alone: \<open>put\<close> (like \<open>update\<close> and \<open>ensure\<close>) stores a session with no cap check.
\<close>

theorem C6_create_keeps_cap:
  assumes k: "keyed ss" and c: "countByApiKey ss k now \<le> MAX_SESSIONS_PER_API_KEY"
  shows "countByApiKey (fst (create ss i k ttl now)) k now \<le> MAX_SESSIONS_PER_API_KEY \<and>
         (\<forall>k'. k' \<noteq> k \<longrightarrow>
            countByApiKey (fst (create ss i k ttl now)) k' now \<le> countByApiKey ss k' now) \<and>
         keyed (fst (create ss i k ttl now)) \<and>
         (countByApiKey ss k now = MAX_SESSIONS_PER_API_KEY \<longrightarrow>
            (\<exists>old. find_oldest ss k now = Some old \<and> (sessionId old, old) \<in> set ss \<and>
               live_for k now old \<and>
               (\<forall>x \<in> snd ` set ss. live_for k now x \<longrightarrow> last_accessed old \<le> last_accessed x) \<and>
               (sessionId old \<noteq> i \<longrightarrow>
                  jm_get (fst (create ss i k ttl now)) (sessionId old) = None)))"
proof -
  define ss1 where "ss1 = (if countByApiKey ss k now \<ge> MAX_SESSIONS_PER_API_KEY
                           then deleteOldestByApiKey ss k now else ss)"
  define r where "r = snd (create ss i k ttl now)"
  have cr: "fst (create ss i k ttl now) = jm_set i r (evict_oldest_session ss1)"
    by (simp add: create_def ss1_def r_def Let_def)
  have rk: "sessionId r = i" "apiKey r = Some k"
    by (simp_all add: r_def create_def Let_def)
  have lt: "countByApiKey ss1 k now < MAX_SESSIONS_PER_API_KEY"
  proof (cases "countByApiKey ss k now \<ge> MAX_SESSIONS_PER_API_KEY")
    case True
    then have "0 < countByApiKey ss k now" by (simp add: MAX_SESSIONS_PER_API_KEY_def)
    from count_deleteOldest [OF k this] c True show ?thesis by (simp add: ss1_def)
  next
    case False
    then show ?thesis by (simp add: ss1_def)
  qed
  have "countByApiKey (jm_set i r (evict_oldest_session ss1)) k now
          \<le> Suc (countByApiKey (evict_oldest_session ss1) k now)"
    by (rule count_jm_set)
  also have "\<dots> \<le> Suc (countByApiKey ss1 k now)" by (simp add: count_evict)
  also have "\<dots> \<le> MAX_SESSIONS_PER_API_KEY" using lt by simp
  finally have cap: "countByApiKey (fst (create ss i k ttl now)) k now
                       \<le> MAX_SESSIONS_PER_API_KEY"
    by (simp add: cr)
  have other: "countByApiKey (fst (create ss i k ttl now)) k' now \<le> countByApiKey ss k' now"
    if "k' \<noteq> k" for k'
  proof -
    have nl: "\<not> live_for k' now r" using that rk by (simp add: live_for_def)
    have "countByApiKey (jm_set i r (evict_oldest_session ss1)) k' now
            \<le> countByApiKey (evict_oldest_session ss1) k' now"
      using nl by (rule count_jm_set_other)
    also have "\<dots> \<le> countByApiKey ss1 k' now" by (rule count_evict)
    also have "\<dots> \<le> countByApiKey ss k' now"
      by (simp add: ss1_def count_deleteOldest_other)
    finally show ?thesis by (simp add: cr)
  qed
  have k1: "keyed ss1" using k by (simp add: ss1_def keyed_deleteOldest)
  have kd: "keyed (fst (create ss i k ttl now))"
    unfolding cr using k1 rk(1) by (intro keyed_jm_set keyed_evict)
  have ev: "\<exists>old. find_oldest ss k now = Some old \<and> (sessionId old, old) \<in> set ss \<and>
               live_for k now old \<and>
               (\<forall>x \<in> snd ` set ss. live_for k now x \<longrightarrow> last_accessed old \<le> last_accessed x) \<and>
               (sessionId old \<noteq> i \<longrightarrow>
                  jm_get (fst (create ss i k ttl now)) (sessionId old) = None)"
    if full: "countByApiKey ss k now = MAX_SESSIONS_PER_API_KEY"
  proof -
    from full have pos: "0 < countByApiKey ss k now" by (simp add: MAX_SESSIONS_PER_API_KEY_def)
    from find_oldest_exists [OF pos] obtain old where o: "find_oldest ss k now = Some old" ..
    note m = find_oldest_min [OF o]
    have mem: "(sessionId old, old) \<in> set ss" using m keyed_mem [OF k] by blast
    have s1: "ss1 = jm_delete (sessionId old) ss"
      using full o by (simp add: ss1_def deleteOldestByApiKey_def)
    have "jm_get ss1 (sessionId old) = None" by (simp add: s1 jm_get_jm_delete)
    then have "jm_get (evict_oldest_session ss1) (sessionId old) = None"
      by (rule jm_get_evict_None)
    then have gone: "sessionId old \<noteq> i \<longrightarrow>
                       jm_get (fst (create ss i k ttl now)) (sessionId old) = None"
      by (simp add: cr jm_get_jm_set)
    from o m mem gone show ?thesis by blast
  qed
  from cap other kd ev show ?thesis by blast
qed

text \<open>The hypotheses of C6 at the example store, where the sixth session evicts \<open>s1\<close>.\<close>

theorem C6_witness:
  "keyed five_sessions \<and>
   countByApiKey five_sessions ''k'' 6 = MAX_SESSIONS_PER_API_KEY \<and>
   countByApiKey (fst (create five_sessions ''s6'' ''k'' 1000 6)) ''k'' 6
     \<le> MAX_SESSIONS_PER_API_KEY \<and>
   map last_accessed (map snd five_sessions) = [1, 2, 3, 4, 5] \<and>
   jm_get five_sessions ''s1'' \<noteq> None \<and>
   jm_get (fst (create five_sessions ''s6'' ''k'' 1000 6)) ''s1'' = None"
proof -
  have a: "keyed five_sessions" by (simp add: five_sessions_eval keyed_def)
  have b: "countByApiKey five_sessions ''k'' 6 = MAX_SESSIONS_PER_API_KEY"
    by (simp add: five_sessions_eval countByApiKey_def live_for_def MAX_SESSIONS_PER_API_KEY_def)
  have b': "countByApiKey five_sessions ''k'' 6 \<le> MAX_SESSIONS_PER_API_KEY" using b by simp
  have o: "find_oldest five_sessions ''k'' 6 = Some (snd (hd five_sessions))"
    by (simp add: five_sessions_eval find_oldest_def oldest_step_simps live_for_def)
  have l: "map last_accessed (map snd five_sessions) = [1, 2, 3, 4, 5]"
    by (simp add: five_sessions_eval)
  have g: "jm_get five_sessions ''s1'' \<noteq> None" by (simp add: five_sessions_eval jm_get_def)
  from C6_create_keeps_cap [OF a b', of "''s6''" 1000] b o
  have "countByApiKey (fst (create five_sessions ''s6'' ''k'' 1000 6)) ''k'' 6
          \<le> MAX_SESSIONS_PER_API_KEY \<and>
        jm_get (fst (create five_sessions ''s6'' ''k'' 1000 6)) ''s1'' = None"
    by (simp add: five_sessions_eval)
  with a b l g show ?thesis by simp
qed

text \<open>
  Claim C6 as stated fails after \<open>put\<close>: with five live sessions of a fingerprint in the
  store, \<open>put\<close> of a sixth leaves six.
\<close>

theorem C6_counterexample:
  "countByApiKey five_sessions ''k'' 6 = 5 \<and>
   countByApiKey (put five_sessions ''s6'' sixth_record 1000 6) ''k'' 6 = 6 \<and>
   MAX_SESSIONS_PER_API_KEY = 5"
  by (simp add: five_sessions_eval put_def sixth_record_def countByApiKey_def live_for_def
      MAX_SESSIONS_PER_API_KEY_def)

section \<open>The token endpoint: results\<close>

text \<open>The two outcomes of the authorization-code grant.\<close>

lemma code_path_cases:
  assumes "code_resolves s c now = None"
  shows "fst (handleToken_code pkce c v s na nr uuid now) = Inl ''invalid_grant'' \<and>
         same_rs_records s (snd (handleToken_code pkce c v s na nr uuid now))"
proof (cases "jm_get (codes s) c")
  case None
  then show ?thesis
    by (simp add: handleToken_code_def getTxnIdByCode_def same_rs_records_def)
next
  case (Some e)
  note e = this
  show ?thesis
  proof (cases "now \<ge> te_expiresAt e \<or> te_value e = []")
    case True
    with e show ?thesis
      by (auto simp: handleToken_code_def getTxnIdByCode_def same_rs_records_def)
  next
    case False
    then have live: "\<not> now \<ge> te_expiresAt e" and ne: "te_value e \<noteq> []" by auto
    have g: "getTxnIdByCode s c now = (s, Some (te_value e))"
      using e live by (simp add: getTxnIdByCode_def)
    from assms e live
    have "snd (getTransaction s (te_value e) now) = None"
      by (auto simp: code_resolves_def getTransaction_def split: option.splits if_splits)
    moreover have "same_rs_records s (fst (getTransaction s (te_value e) now))"
      by (simp add: getTransaction_def same_rs_records_def split: option.split)
    ultimately show ?thesis
      using g ne
      by (cases "getTransaction s (te_value e) now") (simp add: handleToken_code_def)
  qed
qed

lemma code_path_exchange:
  assumes "exchange_transaction s c now = Some (ti, txn)"
  shows "handleToken_code pkce c v s na nr uuid now =
     (if codeChallenge txn \<noteq> pkce v then (Inl ''invalid_grant'', s)
      else (Inr \<lparr>tr_access_token = na, tr_refresh_token = nr,
                  tr_token_type = ''bearer'', tr_expires_in = 3600,
                  tr_scope = (let j = scopes_text (provider txn)
                              in if j \<noteq> [] then j else or_else (scope txn) [])\<rparr>,
            deleteCode (deleteTransaction
              (if has_provider_token txn
               then fst (storeRsMapping s na (the (provider txn)) (Some nr)
                           DEFAULT_RS_TOKEN_TTL_MS uuid now)
               else s)
              ti) c))"
proof -
  from assms obtain e t where e: "jm_get (codes s) c = Some e" "\<not> now \<ge> te_expiresAt e"
      "te_value e = ti" "ti \<noteq> []"
    and t: "jm_get (transactions s) ti = Some t" "\<not> now \<ge> te_expiresAt t" "te_value t = txn"
    by (auto simp: exchange_transaction_def split: option.splits if_splits)
  have g: "getTxnIdByCode s c now = (s, Some ti)" using e by (simp add: getTxnIdByCode_def)
  have g2: "getTransaction s ti now = (s, Some txn)" using t by (simp add: getTransaction_def)
  show ?thesis
    using e(4) by (simp add: handleToken_code_def g g2 has_provider_token_def Let_def)
qed

lemma code_path_resolved:
  assumes "code_resolves s c now = Some txn"
  shows "handleToken_code pkce c v s na nr uuid now = (Inl ''invalid_grant'', s) \<or>
         codeChallenge txn = pkce v \<and>
         (\<exists>resp s'. handleToken_code pkce c v s na nr uuid now = (Inr resp, s'))"
proof -
  from assms obtain e t where e: "jm_get (codes s) c = Some e" "\<not> now \<ge> te_expiresAt e"
    and t: "jm_get (transactions s) (te_value e) = Some t" "\<not> now \<ge> te_expiresAt t"
      "te_value t = txn"
    by (auto simp: code_resolves_def split: option.splits if_splits)
  have g: "getTxnIdByCode s c now = (s, Some (te_value e))"
    using e by (simp add: getTxnIdByCode_def)
  show ?thesis
  proof (cases "te_value e = []")
    case True
    then show ?thesis by (simp add: handleToken_code_def g)
  next
    case False
    with e t have "exchange_transaction s c now = Some (te_value e, txn)"
      by (simp add: exchange_transaction_def)
    from code_path_exchange [OF this, of pkce v na nr uuid] show ?thesis by auto
  qed
qed

text \<open>
  Claim C5. For the \<open>authorization_code\<close> grant, whatever the store, the clock and the
  minted tokens: if \<open>handleToken\<close> succeeds then the code resolves to a transaction whose
  stored \<open>codeChallenge\<close> equals the S256 challenge computed from the supplied verifier;
  and whenever the code resolves but the computed challenge differs from the stored one,
  the exchange fails with \<open>invalid_grant\<close> and leaves the store as it was, so no RS
  tokens are issued.
\<close>

theorem C5_pkce_necessary:
  "((\<exists>resp. fst (handleToken pkce (AuthorizationCodeGrant c v) s cfg reply na nr uuid now)
             = Inr resp) \<longrightarrow>
      (\<exists>txn. code_resolves s c now = Some txn \<and> pkce v = codeChallenge txn)) \<and>
   (\<forall>txn. code_resolves s c now = Some txn \<and> pkce v \<noteq> codeChallenge txn \<longrightarrow>
      handleToken pkce (AuthorizationCodeGrant c v) s cfg reply na nr uuid now
        = (Inl ''invalid_grant'', s))"
proof (intro conjI impI allI)
  assume ok: "\<exists>resp. fst (handleToken pkce (AuthorizationCodeGrant c v) s cfg reply na nr uuid now)
                = Inr resp"
  show "\<exists>txn. code_resolves s c now = Some txn \<and> pkce v = codeChallenge txn"
  proof (cases "code_resolves s c now")
    case None
    from code_path_cases [OF None, of pkce v na nr uuid] ok show ?thesis
      by (simp add: handleToken_def)
  next
    case (Some txn)
    from code_path_resolved [OF Some, of pkce v na nr uuid] ok Some show ?thesis
      by (auto simp: handleToken_def)
  qed
next
  fix txn
  assume a: "code_resolves s c now = Some txn \<and> pkce v \<noteq> codeChallenge txn"
  then have r: "code_resolves s c now = Some txn" and ne: "codeChallenge txn \<noteq> pkce v" by auto
  show "handleToken pkce (AuthorizationCodeGrant c v) s cfg reply na nr uuid now
          = (Inl ''invalid_grant'', s)"
    using code_path_resolved [OF r, of pkce v na nr uuid] ne by (auto simp: handleToken_def)
qed

text \<open>The example store with one pending code, evaluated.\<close>

lemma store2_eval:
  "store2 = \<lparr>objs = [], rsAccessMap = [], rsRefreshMap = [],
     transactions = [(''txn-1'', \<lparr>te_value = txn1, te_expiresAt = 600000, te_createdAt = 0\<rparr>)],
     codes = [(''code-1'', \<lparr>te_value = ''txn-1'', te_expiresAt = 600000, te_createdAt = 0\<rparr>)]\<rparr>"
  by (simp add: store2_def saveCode_def saveTransaction_def empty_store_def ttl_ms_def
      DEFAULT_TXN_TTL_MS_def DEFAULT_CODE_TTL_MS_def evictOldest_def MAX_TRANSACTIONS_def)

lemma store2_resolves: "code_resolves store2 ''code-1'' 5000 = Some txn1"
  by (simp add: store2_eval code_resolves_def jm_get_def)

lemma store2_exchange: "exchange_transaction store2 ''code-1'' 5000 = Some (''txn-1'', txn1)"
  by (simp add: store2_eval exchange_transaction_def jm_get_def)

text \<open>Both cases of C5 on the example store: a wrong verifier and the right one.\<close>

theorem C5_witness:
  "code_resolves store2 ''code-1'' 5000 = Some txn1 \<and>
   pkce1 ''wrong'' \<noteq> codeChallenge txn1 \<and>
   handleToken pkce1 (AuthorizationCodeGrant ''code-1'' ''wrong'') store2 None rotated_reply
     ''rs-access-2'' ''rs-refresh-2'' ''uuid'' 5000 = (Inl ''invalid_grant'', store2) \<and>
   (\<exists>resp. fst (handleToken pkce1 (AuthorizationCodeGrant ''code-1'' ''verifier-1'') store2 None
              rotated_reply ''rs-access-2'' ''rs-refresh-2'' ''uuid'' 5000) = Inr resp) \<and>
   pkce1 ''verifier-1'' = codeChallenge txn1"
proof -
  have ne: "pkce1 ''wrong'' \<noteq> codeChallenge txn1" by (simp add: pkce1_def txn1_def)
  have eq: "pkce1 ''verifier-1'' = codeChallenge txn1" by (simp add: pkce1_def txn1_def)
  have ok: "\<exists>resp. fst (handleToken pkce1 (AuthorizationCodeGrant ''code-1'' ''verifier-1'')
              store2 None rotated_reply ''rs-access-2'' ''rs-refresh-2'' ''uuid'' 5000) = Inr resp"
    using code_path_exchange [OF store2_exchange, of pkce1 "''verifier-1''"] eq
    by (simp add: handleToken_def)
  from C5_pkce_necessary [of pkce1 "''code-1''" "''wrong''" store2 None rotated_reply
      "''rs-access-2''" "''rs-refresh-2''" "''uuid''" 5000] store2_resolves ne
  have "handleToken pkce1 (AuthorizationCodeGrant ''code-1'' ''wrong'') store2 None rotated_reply
     ''rs-access-2'' ''rs-refresh-2'' ''uuid'' 5000 = (Inl ''invalid_grant'', store2)"
    by blast
  with store2_resolves ne ok eq show ?thesis by blast
qed

text \<open>
  Claim C3, as the code has it. When the code resolves to a transaction that carries no
  \<open>provider.access_token\<close>, \<open>handleToken\<close> creates no RS record (the heap of records
  and both index maps are unchanged). With a matching code verifier the endpoint does
  not fail: it returns the freshly minted RS access and refresh tokens, which map to
  nothing, and deletes the transaction and the code.
\<close>

theorem C3_no_provider_no_record:
  assumes r: "exchange_transaction s c now = Some (ti, txn)" and np: "\<not> has_provider_token txn"
  shows "same_rs_records s (snd (handleToken pkce (AuthorizationCodeGrant c v) s cfg reply
                                   na nr uuid now)) \<and>
         (pkce v = codeChallenge txn \<longrightarrow>
            (\<exists>resp s'. handleToken pkce (AuthorizationCodeGrant c v) s cfg reply na nr uuid now
                         = (Inr resp, s') \<and>
                       tr_access_token resp = na \<and> tr_refresh_token resp = nr \<and>
                       jm_get (transactions s') ti = None \<and> jm_get (codes s') c = None))"
proof -
  note h = code_path_exchange [OF r, of pkce v na nr uuid]
  have same: "same_rs_records s (snd (handleToken pkce (AuthorizationCodeGrant c v) s cfg reply
                                   na nr uuid now))"
    using h np
    by (simp add: handleToken_def same_rs_records_def deleteCode_def deleteTransaction_def)
  have ok: "\<exists>resp s'. handleToken pkce (AuthorizationCodeGrant c v) s cfg reply na nr uuid now
                         = (Inr resp, s') \<and>
                       tr_access_token resp = na \<and> tr_refresh_token resp = nr \<and>
                       jm_get (transactions s') ti = None \<and> jm_get (codes s') c = None"
    if "pkce v = codeChallenge txn"
    using h np that
    by (simp add: handleToken_def deleteCode_def deleteTransaction_def jm_get_jm_delete)
  from same ok show ?thesis by blast
qed

text \<open>
  The hypotheses of C3 hold at the example store, where the transaction and the code are
  stored before the exchange and gone after it.
\<close>

theorem C3_witness:
  "exchange_transaction store2 ''code-1'' 5000 = Some (''txn-1'', txn1) \<and>
   \<not> has_provider_token txn1 \<and> pkce1 ''verifier-1'' = codeChallenge txn1 \<and>
   jm_get (transactions store2) ''txn-1'' \<noteq> None \<and> jm_get (codes store2) ''code-1'' \<noteq> None \<and>
   same_rs_records store2
     (snd (handleToken pkce1 (AuthorizationCodeGrant ''code-1'' ''verifier-1'') store2 None
             rotated_reply ''rs-access-2'' ''rs-refresh-2'' ''uuid'' 5000)) \<and>
   (\<exists>resp s'. handleToken pkce1 (AuthorizationCodeGrant ''code-1'' ''verifier-1'') store2 None
                rotated_reply ''rs-access-2'' ''rs-refresh-2'' ''uuid'' 5000 = (Inr resp, s') \<and>
              jm_get (transactions s') ''txn-1'' = None \<and> jm_get (codes s') ''code-1'' = None)"
proof -
  have np: "\<not> has_provider_token txn1" by (simp add: has_provider_token_def txn1_def)
  have eq: "pkce1 ''verifier-1'' = codeChallenge txn1" by (simp add: pkce1_def txn1_def)
  have before: "jm_get (transactions store2) ''txn-1'' \<noteq> None"
    "jm_get (codes store2) ''code-1'' \<noteq> None"
    by (simp_all add: store2_eval jm_get_def)
  from C3_no_provider_no_record [OF store2_exchange np, of pkce1 "''verifier-1''" None
      rotated_reply "''rs-access-2''" "''rs-refresh-2''" "''uuid''"] eq store2_exchange np before
  show ?thesis by blast
qed

text \<open>
  Claim C3 as stated fails: the code resolves to a transaction without a \<open>provider\<close>
  field, the verifier matches, and the token endpoint answers with tokens instead of
  \<open>invalid_grant\<close>.
\<close>

theorem C3_counterexample:
  "exchange_transaction store2 ''code-1'' 5000 = Some (''txn-1'', txn1) \<and> provider txn1 = None \<and>
   fst (handleToken pkce1 (AuthorizationCodeGrant ''code-1'' ''verifier-1'') store2 None
          rotated_reply ''rs-access-2'' ''rs-refresh-2'' ''uuid'' 5000)
     = Inr \<lparr>tr_access_token = ''rs-access-2'', tr_refresh_token = ''rs-refresh-2'',
            tr_token_type = ''bearer'', tr_expires_in = 3600, tr_scope = ''read''\<rparr>"
proof -
  have "pkce1 ''verifier-1'' = codeChallenge txn1" by (simp add: pkce1_def txn1_def)
  then show ?thesis
    using code_path_exchange [OF store2_exchange, of pkce1 "''verifier-1''"] store2_exchange
    by (simp add: handleToken_def txn1_def scopes_text_def or_else_def)
qed

section \<open>The token store and the refresher: results\<close>

text \<open>The example store with one RS record, evaluated.\<close>

lemma store1_eval:
  "store1 = \<lparr>objs = [\<lparr>rs_access_token = ''rs-access-1'', rs_refresh_token = ''rs-refresh-1'',
                      r_provider = prov1, r_created_at = 0, r_expiresAt = 604800000\<rparr>],
             rsAccessMap = [(''rs-access-1'', 0)], rsRefreshMap = [(''rs-refresh-1'', 0)],
             transactions = [], codes = []\<rparr>"
  by (simp add: store1_def storeRsMapping_def empty_store_def evictOldest_def MAX_RS_RECORDS_def
      lookup_def jm_get_def DEFAULT_RS_TOKEN_TTL_MS_def Let_def)

lemma rotated_tokens:
  "refreshProviderToken ''prov-refresh-1'' cfg1 rotated_reply 5000 =
     Inr \<lparr>access_token = ''prov-access-2'', refresh_token = Some ''prov-refresh-2'',
          expires_at = Some 3605000, scopes = Some [''read'', ''write'']\<rparr>"
  by (simp add: refreshProviderToken_def rotated_reply_def truthy_def or_else_def is_space_def)

text \<open>
  Claim C1 at a failing input. The store holds one record (RS access token
  \<open>rs-access-1\<close>, provider refresh token \<open>prov-refresh-1\<close>, provider token expired at
  1000); at time 5000 the provider answers the refresh with a rotated refresh token
  \<open>prov-refresh-2\<close>. \<open>ensureFreshToken\<close> reports a refresh and stores the new provider
  tokens, but the record keeps the RS access token \<open>rs-access-1\<close> and the access map
  still resolves it: no new RS access token is generated.
\<close>

theorem C1_access_token_not_rotated:
  "refresh_token (r_provider (hd (objs store1))) = Some ''prov-refresh-1'' \<and>
   ensureFreshToken ''rs-access-1'' store1 (Some cfg1) rotated_reply [] 5000 =
     (\<lparr>accessToken = ''prov-access-2'', wasRefreshed = True\<rparr>,
      \<lparr>objs = [\<lparr>rs_access_token = ''rs-access-1'', rs_refresh_token = ''rs-refresh-1'',
                r_provider = \<lparr>access_token = ''prov-access-2'',
                              refresh_token = Some ''prov-refresh-2'',
                              expires_at = Some 3605000, scopes = Some [''read'', ''write'']\<rparr>,
                r_created_at = 0, r_expiresAt = 604805000\<rparr>],
       rsAccessMap = [(''rs-access-1'', 0)], rsRefreshMap = [(''rs-refresh-1'', 0)],
       transactions = [], codes = []\<rparr>,
      [(''rs-access-1'', 5000)])"
  by (simp add: store1_eval ensureFreshToken_def getByRsAccess_def lookup_def jm_get_def
      deref_def prov1_def isTokenExpiredOrExpiring_def EXPIRY_BUFFER_MS_def
      shouldSkipRefresh_def truthy_def rotated_tokens [unfolded prov1_def]
      updateByRsRefresh_def markRefreshed_def DEFAULT_RS_TOKEN_TTL_MS_def Let_def)

text \<open>
  The refresh grant of the token endpoint, on the same store and the same reply, does
  rotate: the record moves to the new RS access token and the old one is gone.
\<close>

lemma token_endpoint_rotates:
  "handleToken pkce (RefreshTokenGrant ''rs-refresh-1'') store1 (Some cfg1) rotated_reply
     ''rs-access-2'' nr uuid 5000 =
     (Inr \<lparr>tr_access_token = ''rs-access-2'', tr_refresh_token = ''rs-refresh-1'',
           tr_token_type = ''bearer'', tr_expires_in = 3600, tr_scope = ''read write''\<rparr>,
      \<lparr>objs = [\<lparr>rs_access_token = ''rs-access-2'', rs_refresh_token = ''rs-refresh-1'',
                r_provider = \<lparr>access_token = ''prov-access-2'',
                              refresh_token = Some ''prov-refresh-2'',
                              expires_at = Some 3605000, scopes = Some [''read'', ''write'']\<rparr>,
                r_created_at = 5000, r_expiresAt = 604805000\<rparr>],
       rsAccessMap = [(''rs-access-2'', 0)], rsRefreshMap = [(''rs-refresh-1'', 0)],
       transactions = [], codes = []\<rparr>)"
  by (simp add: store1_eval handleToken_def handleToken_refresh_def getByRsRefresh_def
      lookup_def jm_get_def jm_delete_def deref_def prov1_def truthy_def
      rotated_tokens [unfolded prov1_def] updateByRsRefresh_def DEFAULT_RS_TOKEN_TTL_MS_def
      scopes_text_def Let_def)


subsection \<open>Eviction at the record cap\<close>

lemma jm_get_foldl_delete:
  "jm_get (foldl (\<lambda>m' e. jm_delete (fst e) m') m es) k =
     (if k \<in> fst ` set es then None else jm_get m k)"
  by (induction es arbitrary: m) (auto simp: jm_get_jm_delete)

lemma evictOldest_first:
  assumes "maxSize \<le> length m" "0 < maxSize" "0 < n"
  shows "\<exists>e \<in> set m. jm_get (evictOldest tm m maxSize n) (fst e) = None"
proof -
  let ?sorted = "sort_key (\<lambda>e. tm (snd e)) m"
  have "length ?sorted = length m" by simp
  with assms(1,2) have "0 < length ?sorted" by linarith
  then have "?sorted \<noteq> []" by (simp del: length_sort)
  then obtain e rest where sr: "?sorted = e # rest" by (cases ?sorted) auto
  have "e \<in> set ?sorted" by (simp add: sr)
  then have mem: "e \<in> set m" by simp
  have "e \<in> set (take n ?sorted)" using assms(3) by (cases n) (auto simp: sr)
  then have "jm_get (evictOldest tm m maxSize n) (fst e) = None"
    using assms(1) by (simp add: evictOldest_def jm_get_foldl_delete)
  with mem show ?thesis by blast
qed

lemma well_indexed_entry:
  "well_indexed s now \<Longrightarrow> e \<in> set (rsAccessMap s) \<Longrightarrow>
   \<exists>r. deref s (snd e) = Some r \<and> rs_access_token r = fst e \<and> now < r_expiresAt r \<and>
       jm_get (rsRefreshMap s) (rs_refresh_token r) = Some (snd e)"
  by (auto simp: well_indexed_def list_all_iff split: option.splits)

text \<open>
  Claim C2 fails at the record cap. \<open>storeRsMapping\<close> evicts from \<open>rsAccessMap\<close>
  only. On a well-indexed store with \<open>MAX_RS_RECORDS\<close> or more access entries,
  storing a mapping under new tokens leaves a record that \<open>getByRsRefresh\<close> still
  returns under its refresh token while \<open>getByRsAccess\<close> returns nothing under its
  access token.
\<close>

theorem C2_eviction_leaves_half_index:
  assumes full: "MAX_RS_RECORDS \<le> length (rsAccessMap s)"
    and wi: "well_indexed s now"
    and fresh_access: "jm_get (rsAccessMap s) rsAccess = None"
    and fresh_refresh: "jm_get (rsRefreshMap s) rsRefresh = None" "rsRefresh \<noteq> []"
  shows "\<exists>r. snd (getByRsRefresh
                  (fst (storeRsMapping s rsAccess prov (Some rsRefresh) ttlMs uuid now))
                  (rs_refresh_token r) now) = Some r \<and>
             snd (getByRsAccess
                  (fst (storeRsMapping s rsAccess prov (Some rsRefresh) ttlMs uuid now))
                  (rs_access_token r) now) = None"
proof -
  define am where "am = evictOldest (created_at_of s) (rsAccessMap s) MAX_RS_RECORDS 10"
  define nr where "nr = \<lparr>rs_access_token = rsAccess, rs_refresh_token = rsRefresh,
                         r_provider = prov, r_created_at = now, r_expiresAt = now + ttlMs\<rparr>"
  define s' where "s' = fst (storeRsMapping s rsAccess prov (Some rsRefresh) ttlMs uuid now)"
  have s'_eq: "s' = s\<lparr>objs := objs s @ [nr],
                       rsAccessMap := jm_set rsAccess (length (objs s)) am,
                       rsRefreshMap := jm_set rsRefresh (length (objs s)) (rsRefreshMap s)\<rparr>"
    using fresh_refresh
    by (simp add: s'_def storeRsMapping_def lookup_def am_def nr_def Let_def)
  from evictOldest_first [OF full, of 10 "created_at_of s"]
  obtain e where e: "e \<in> set (rsAccessMap s)" and gone: "jm_get am (fst e) = None"
    by (auto simp: am_def MAX_RS_RECORDS_def)
  from well_indexed_entry [OF wi e]
  obtain r where r: "deref s (snd e) = Some r" "rs_access_token r = fst e"
    "now < r_expiresAt r" "jm_get (rsRefreshMap s) (rs_refresh_token r) = Some (snd e)"
    by blast
  have ne_a: "fst e \<noteq> rsAccess"
    using e fresh_access by (auto simp: jm_get_def map_of_eq_None_iff)
  have ne_r: "rs_refresh_token r \<noteq> rsRefresh" using r(4) fresh_refresh(1) by auto
  have lt: "snd e < length (objs s)" and at: "objs s ! snd e = r"
    using r(1) by (auto simp: deref_def split: if_splits)
  have d': "deref s' (snd e) = Some r"
    using lt at by (simp add: s'_eq deref_def nth_append)
  have "snd (getByRsAccess s' (rs_access_token r) now) = None"
    using gone ne_a r(2)
    by (simp add: getByRsAccess_def lookup_def s'_eq jm_get_jm_set)
  moreover have "snd (getByRsRefresh s' (rs_refresh_token r) now) = Some r"
  proof -
    have "lookup s' (rsRefreshMap s') (rs_refresh_token r) = Some (snd e, r)"
      using ne_r r(4) d' by (simp add: lookup_def s'_eq jm_get_jm_set)
    then show ?thesis using r(3) by (simp add: getByRsRefresh_def)
  qed
  ultimately show ?thesis unfolding s'_def by blast
qed

text \<open>The store at the cap is well indexed, and the new tokens are not in it.\<close>

lemma map_of_tokens:
  assumes "inj f" "j < n"
  shows "map_of (map (\<lambda>i. (f i, i)) [0..<n]) (f j) = Some j"
  using assms(2)
proof (induction n)
  case 0
  then show ?case by simp
next
  case (Suc n)
  show ?case
  proof (cases "j < n")
    case True
    with Suc.IH show ?thesis by (simp add: map_of_append)
  next
    case False
    with Suc.prems have jn: "j = n" by simp
    have "f n \<notin> fst ` set (map (\<lambda>i. (f i, i)) [0..<n])"
    proof
      assume "f n \<in> fst ` set (map (\<lambda>i. (f i, i)) [0..<n])"
      then obtain x where x: "f n = f x" "x < n" by auto
      from injD [OF assms(1) x(1)] x(2) show False by simp
    qed
    then have "map_of (map (\<lambda>i. (f i, i)) [0..<n]) (f n) = None"
      by (simp add: map_of_eq_None_iff)
    then show ?thesis by (simp add: jn map_add_def)
  qed
qed

lemma inj_ref_tok: "inj ref_tok"
proof (rule injI)
  fix x y assume "ref_tok x = ref_tok y"
  then have "length (ref_tok x) = length (ref_tok y)" by simp
  then show "x = y" by (simp add: ref_tok_def)
qed

lemma full_store_well_indexed: "well_indexed full_store 10000"
  unfolding well_indexed_def list_all_iff
proof
  fix e assume "e \<in> set (rsAccessMap full_store)"
  then obtain i where i: "i < MAX_RS_RECORDS" "e = (acc_tok i, i)"
    by (auto simp: full_store_def)
  have d: "deref full_store i = Some (full_rec i)"
    using i(1) by (simp add: deref_def full_store_def)
  have "jm_get (rsRefreshMap full_store) (ref_tok i) = Some i"
    using map_of_tokens [OF inj_ref_tok i(1)] by (simp add: jm_get_def full_store_def)
  then show "case deref full_store (snd e) of
               None \<Rightarrow> False
             | Some r \<Rightarrow> rs_access_token r = fst e \<and> 10000 < r_expiresAt r \<and>
                         jm_get (rsRefreshMap full_store) (rs_refresh_token r) = Some (snd e)"
    using d i(2) by (simp add: full_rec_def DEFAULT_RS_TOKEN_TTL_MS_def)
qed

lemma full_store_fresh:
  "jm_get (rsAccessMap full_store) ''new-access'' = None"
  "jm_get (rsRefreshMap full_store) ''new-refresh'' = None"
  by (auto simp: jm_get_def full_store_def map_of_eq_None_iff acc_tok_def ref_tok_def)

text \<open>The hypotheses of the eviction theorem hold at the store with 10000 records.\<close>

theorem C2_witness:
  "MAX_RS_RECORDS \<le> length (rsAccessMap full_store) \<and> well_indexed full_store 10000 \<and>
   jm_get (rsAccessMap full_store) ''new-access'' = None \<and>
   jm_get (rsRefreshMap full_store) ''new-refresh'' = None \<and>
   (\<exists>r. snd (getByRsRefresh
               (fst (storeRsMapping full_store ''new-access'' prov1 (Some ''new-refresh'')
                       DEFAULT_RS_TOKEN_TTL_MS ''uuid'' 10000))
               (rs_refresh_token r) 10000) = Some r \<and>
        snd (getByRsAccess
               (fst (storeRsMapping full_store ''new-access'' prov1 (Some ''new-refresh'')
                       DEFAULT_RS_TOKEN_TTL_MS ''uuid'' 10000))
               (rs_access_token r) 10000) = None)"
proof -
  have full: "MAX_RS_RECORDS \<le> length (rsAccessMap full_store)" by (simp add: full_store_def)
  have ne: "''new-refresh'' \<noteq> []" by simp
  from C2_eviction_leaves_half_index [OF full full_store_well_indexed full_store_fresh ne,
      of prov1 DEFAULT_RS_TOKEN_TTL_MS "''uuid''"]
    full full_store_well_indexed full_store_fresh
  show ?thesis by blast
qed

section \<open>The SSRF guard and the redirect fallback: results\<close>

text \<open>
  Claim C8. If \<open>checkSsrfSafe\<close> rejects a client-id URL with a reason, then
  \<open>fetchClientMetadata\<close> fails with \<open>ssrf_blocked: reason\<close> and fetches nothing; and
  an authorize request that submits this URL to the CIMD fetch (valid redirect URI and
  PKCE parameters, a URL-shaped client id, CIMD not disabled) fails with
  \<open>invalid_client: ssrf_blocked: reason\<close>, with no URL fetched and the store untouched.
\<close>

theorem C8_ssrf_blocked:
  assumes "checkSsrfSafe pf u True = Unsafe reason"
  shows "fetchClientMetadata pf env u config = (Inl (''ssrf_blocked: '' @ reason), []) \<and>
         (ai_redirectUri input \<noteq> [] \<and> ai_codeChallenge input \<noteq> [] \<and>
          ai_codeChallengeMethod input = ''S256'' \<and> ai_clientId input = Some u \<and>
          isClientIdUrl pf u \<and> cimd_enabled opts \<noteq> Some False \<longrightarrow>
            handleAuthorize pf env input s pc oc opts newTxnId newCode now =
              (Inl (''invalid_client: ssrf_blocked: '' @ reason), s, []))"
proof -
  have f: "fetchClientMetadata pf env u config = (Inl (''ssrf_blocked: '' @ reason), [])" for config
    using assms by (simp add: fetchClientMetadata_def assertSsrfSafe_def Let_def)
  have u_ne: "u \<noteq> []" if "isClientIdUrl pf u"
    using that by (auto simp: isClientIdUrl_def startsWith_def split: if_splits)
  have "handleAuthorize pf env input s pc oc opts newTxnId newCode now =
          (Inl (''invalid_client: ssrf_blocked: '' @ reason), s, [])"
    if h: "ai_redirectUri input \<noteq> [] \<and> ai_codeChallenge input \<noteq> [] \<and>
          ai_codeChallengeMethod input = ''S256'' \<and> ai_clientId input = Some u \<and>
          isClientIdUrl pf u \<and> cimd_enabled opts \<noteq> Some False"
  proof -
    from h have en: "(case cimd_enabled opts of None \<Rightarrow> True | Some b \<Rightarrow> b)"
      by (cases "cimd_enabled opts") auto
    from h u_ne have t: "truthy (ai_clientId input)" by (simp add: truthy_def)
    show ?thesis using h en t
      by (simp add: handleAuthorize_def Let_def f [of "cimd opts"])
  qed
  with f show ?thesis by blast
qed

text \<open>The example platform, evaluated.\<close>

lemma pf1_parse:
  "parseUrl pf1 ''https://localhost/client.json'' =
     Some (url_of ''https:'' ''localhost'' ''/client.json'')"
  "parseUrl pf1 ''https://app.example.com/callback'' =
     Some (url_of ''https:'' ''app.example.com'' ''/callback'')"
  "parseUrl pf1 ''https://evil.example.net/steal'' =
     Some (url_of ''https:'' ''evil.example.net'' ''/steal'')"
  "parseUrl pf1 ''static-client'' = None"
  by (simp_all add: pf1_def)

lemma lower_localhost: "toLowerCase ''localhost'' = ''localhost''"
  by (simp add: toLowerCase_def lower_char_def)

text \<open>C8 at a client id on \<open>localhost\<close>, which passes \<open>isClientIdUrl\<close> and is a blocked host.\<close>

theorem C8_witness:
  "checkSsrfSafe pf1 ''https://localhost/client.json'' True = Unsafe ''blocked_host'' \<and>
   isClientIdUrl pf1 ''https://localhost/client.json'' \<and>
   fetchClientMetadata pf1 env1 ''https://localhost/client.json'' None =
     (Inl ''ssrf_blocked: blocked_host'', []) \<and>
   handleAuthorize pf1 env1 input1 empty_store pc_dev oc1 opts1 ''txn-1'' ''code-1'' 0 =
     (Inl ''invalid_client: ssrf_blocked: blocked_host'', empty_store, [])"
proof -
  have c: "checkSsrfSafe pf1 ''https://localhost/client.json'' True = Unsafe ''blocked_host''"
    by (simp add: checkSsrfSafe_def pf1_parse url_of_def lower_localhost BLOCKED_HOSTS_def)
  have i: "isClientIdUrl pf1 ''https://localhost/client.json''"
    by (simp add: isClientIdUrl_def startsWith_def pf1_parse url_of_def)
  have h: "ai_redirectUri input1 \<noteq> [] \<and> ai_codeChallenge input1 \<noteq> [] \<and>
          ai_codeChallengeMethod input1 = ''S256'' \<and>
          ai_clientId input1 = Some ''https://localhost/client.json'' \<and>
          cimd_enabled opts1 \<noteq> Some False"
    by (simp add: input1_def opts1_def)
  from C8_ssrf_blocked [OF c, of env1 None input1 opts1 empty_store pc_dev oc1 "''txn-1''"
      "''code-1''" 0] c i h
  show ?thesis by simp
qed


subsection \<open>The redirect fallback\<close>

lemma redirect_with_code_Some:
  "parseUrl pf safe = Some u \<Longrightarrow>
   redirect_with_code pf safe c st = Some (with_code_and_state c st u)"
  by (simp add: redirect_with_code_def with_code_and_state_def Let_def)

text \<open>
  The dev shortcut of \<open>handleAuthorize\<close>: when the client's redirect URI fails
  \<open>isAllowedRedirect\<close> and the configured redirect URI parses to \<open>u\<close>, the call
  succeeds with a redirect to \<open>u\<close> that carries the new code and the echoed state.
\<close>

lemma dev_shortcut_fallback:
  assumes v: "ai_redirectUri input \<noteq> []" "ai_codeChallenge input \<noteq> []"
      "ai_codeChallengeMethod input = ''S256''"
    and acc: "client_accepted pf env input opts"
    and dev: "\<not> (truthy (pc_clientId pc) \<and> truthy (pc_clientSecret pc))"
    and na: "\<not> isAllowedRedirect pf (ai_redirectUri input) oc (isDev opts)"
    and cfg: "parseUrl pf (redirectUri oc) = Some u"
  shows "\<exists>s' fetched. handleAuthorize pf env input s pc oc opts newTxnId newCode now =
           (Inr \<lparr>redirectTo = with_code_and_state newCode (ai_state input) u,
                 txnId = newTxnId\<rparr>, s', fetched) \<and>
           map_option te_value (jm_get (codes s') newCode) = Some newTxnId"
proof -
  define checked where "checked =
    (if truthy (ai_clientId input) \<and> isClientIdUrl pf (the (ai_clientId input)) then
       (if \<not> (case cimd_enabled opts of None \<Rightarrow> True | Some b \<Rightarrow> b)
        then (Inl ''invalid_client: URL-based client_id not supported'', [])
        else (case fetchClientMetadata pf env (the (ai_clientId input)) (cimd opts) of
                (Inl e, fetched) \<Rightarrow> (Inl (''invalid_client: '' @ e), fetched)
              | (Inr metadata, fetched) \<Rightarrow>
                  if \<not> validateRedirectUri metadata (ai_redirectUri input)
                  then (Inl ''invalid_request: redirect_uri not registered for this client'',
                        fetched)
                  else (Inr (), fetched)))
     else (Inr (), []::string list))"
  have ck: "\<exists>fetched. checked = (Inr (), fetched)"
  proof (cases "truthy (ai_clientId input) \<and> isClientIdUrl pf (the (ai_clientId input))")
    case False
    then show ?thesis by (auto simp: checked_def)
  next
    case True
    with acc have en: "cimd_enabled opts \<noteq> Some False"
      and md: "case fst (fetchClientMetadata pf env (the (ai_clientId input)) (cimd opts)) of
                 Inl e \<Rightarrow> False
               | Inr metadata \<Rightarrow> validateRedirectUri metadata (ai_redirectUri input)"
      by (auto simp: client_accepted_def)
    from en have en': "(case cimd_enabled opts of None \<Rightarrow> True | Some b \<Rightarrow> b)"
      by (cases "cimd_enabled opts") auto
    obtain r f where rf: "fetchClientMetadata pf env (the (ai_clientId input)) (cimd opts) = (r, f)"
      by (cases "fetchClientMetadata pf env (the (ai_clientId input)) (cimd opts)") auto
    with md obtain m where "r = Inr m" "validateRedirectUri m (ai_redirectUri input)"
      by (cases r) auto
    with True en' rf show ?thesis by (simp add: checked_def)
  qed
  then obtain fetched where ck': "checked = (Inr (), fetched)" ..
  from dev have dev': "(if truthy (pc_clientId pc) \<and> truthy (pc_clientSecret pc) then a else b) = b"
    for a b :: "authorize_result flow_result"
    by auto
  show ?thesis
    using v na cfg ck' [unfolded checked_def]
    by (simp add: handleAuthorize_def Let_def dev' redirect_with_code_Some saveCode_def
        jm_get_jm_set)
qed

text \<open>The example configuration, evaluated.\<close>

lemma not_allowed_evil:
  "\<not> isAllowedRedirect pf1 ''https://evil.example.net/steal'' oc1 False"
  by (simp add: isAllowedRedirect_def pf1_parse url_of_def oc1_def Let_def)

lemma store2_txn: "getTransaction store2 ''txn-1'' 5000 = (store2, Some txn1)"
  by (simp add: getTransaction_def store2_eval jm_get_def)

lemma callback1_reads:
  "callback_txn_id pf1 callback1 = ''txn-1''"
  "callback_client_redirect pf1 callback1 oc1 = ''https://evil.example.net/steal''"
  by (simp_all add: callback_txn_id_def callback_client_redirect_def callback1_def pf1_def
      or_else_def)

lemma dev_shortcut_example:
  "fst (handleAuthorize pf1 env1 input2 empty_store pc_dev oc1 opts1 ''txn-1'' ''code-1'' 0) =
     Inr \<lparr>redirectTo = \<lparr>protocol = ''https:'', hostname = ''app.example.com'',
                          host = ''app.example.com'', pathname = ''/callback'',
                          searchParams = [(''code'', ''code-1''), (''state'', ''st'')]\<rparr>,
           txnId = ''txn-1''\<rparr>"
proof -
  have v: "ai_redirectUri input2 \<noteq> []" "ai_codeChallenge input2 \<noteq> []"
      "ai_codeChallengeMethod input2 = ''S256''"
    by (simp_all add: input2_def input1_def)
  have acc: "client_accepted pf1 env1 input2 opts1"
    by (simp add: client_accepted_def input2_def input1_def isClientIdUrl_def startsWith_def)
  have dev: "\<not> (truthy (pc_clientId pc_dev) \<and> truthy (pc_clientSecret pc_dev))"
    by (simp add: pc_dev_def truthy_def)
  have na: "\<not> isAllowedRedirect pf1 (ai_redirectUri input2) oc1 (isDev opts1)"
    using not_allowed_evil by (simp add: input2_def input1_def opts1_def)
  have cfg: "parseUrl pf1 (redirectUri oc1) =
               Some (url_of ''https:'' ''app.example.com'' ''/callback'')"
    by (simp add: oc1_def pf1_parse)
  have w: "with_code_and_state ''code-1'' (ai_state input2)
             (url_of ''https:'' ''app.example.com'' ''/callback'')
             = \<lparr>protocol = ''https:'', hostname = ''app.example.com'',
                 host = ''app.example.com'', pathname = ''/callback'',
                 searchParams = [(''code'', ''code-1''), (''state'', ''st'')]\<rparr>"
    by (simp add: with_code_and_state_def truthy_def set_param_def url_of_def input2_def
        input1_def)
  from dev_shortcut_fallback [OF v acc dev na cfg, of empty_store "''txn-1''" "''code-1''" 0]
  show ?thesis by (auto simp: w)
qed

subsection \<open>The provider callback\<close>

text \<open>
  The callback hands \<open>authorizationCodeGrantRequest\<close> parameters that did not go through
  the validation, so the exchange is refused in every call: the callback ends with
  \<open>unknown_txn\<close>, with the \<open>TypeError\<close> of an endpoint URL, or with \<open>fetch_failed\<close>
  and the message of the refusal. It never returns a redirect.
\<close>

lemma callback_always_fails:
  "fst (handleProviderCallback pf input s pc oc opts refusal reply newCode now) \<in>
     {Inl ''unknown_txn'', Inl ''Invalid URL'', Inl (''fetch_failed: '' @ refusal)}"
  by (cases "getTransaction s (callback_txn_id pf input) now")
     (auto simp: handleProviderCallback_def callback_txn_id_def authorizationCodeGrantRequest_def
        Let_def split: option.splits)

text \<open>
  Claim C9 at a failing input. The transaction of the composite state is stored and
  live, the endpoint URLs resolve, the provider would answer the exchange with an access
  token, the client's redirect URI fails the allowlist check and the configured redirect
  URI parses. \<open>handleProviderCallback\<close> returns the error \<open>fetch_failed\<close> with the
  message of the refused exchange and leaves the store as it was: it does not redirect
  to the configured URI and mints no code.
\<close>

theorem C9_callback_never_redirects:
  "getTransaction store2 (callback_txn_id pf1 callback1) 5000 = (store2, Some txn1) \<and>
   \<not> isAllowedRedirect pf1 (callback_client_redirect pf1 callback1 oc1) oc1 (isDev opts1) \<and>
   parseUrl pf1 (redirectUri oc1) = Some (url_of ''https:'' ''app.example.com'' ''/callback'') \<and>
   handleProviderCallback pf1 callback1 store2 pc_prod oc1 opts1 refusal code_reply ''code-2'' 5000 =
     (Inl (''fetch_failed: '' @ refusal), store2)"
proof -
  have d: "decodeState pf1 (compositeState callback1) =
             Some \<lparr>tid = Some ''txn-1'', cs = Some ''st'',
                   cr = Some ''https://evil.example.net/steal'', cs_sid = None\<rparr>"
    by (simp add: pf1_def callback1_def)
  have r: "resolveUrl pf1 (or_else (callbackPath opts1) ''/oauth/callback'') (baseUrl opts1) \<noteq> None"
    by (simp add: pf1_def opts1_def or_else_def)
  have b: "buildAuthorizationServer pf1 pc_prod \<noteq> None"
    by (simp add: buildAuthorizationServer_def pf1_def pc_prod_def pc_dev_def or_else_def)
  have na: "\<not> isAllowedRedirect pf1 (callback_client_redirect pf1 callback1 oc1) oc1 (isDev opts1)"
    using not_allowed_evil by (simp add: callback1_reads opts1_def)
  have cfg: "parseUrl pf1 (redirectUri oc1) =
               Some (url_of ''https:'' ''app.example.com'' ''/callback'')"
    by (simp add: oc1_def pf1_parse)
  have h: "handleProviderCallback pf1 callback1 store2 pc_prod oc1 opts1 refusal code_reply
             ''code-2'' 5000 = (Inl (''fetch_failed: '' @ refusal), store2)"
    using r b
    by (simp add: handleProviderCallback_def d or_else_def store2_txn
        authorizationCodeGrantRequest_def Let_def)
  from na cfg h show ?thesis by (simp add: callback1_reads store2_txn)
qed

section \<open>tools/call and cancellation: results\<close>

text \<open>Notifications leave the registry alone and never clear an abort flag.\<close>

lemma notify_registry:
  "cancellationRegistry (snd (handleMcpNotification m p st)) = cancellationRegistry st"
  by (simp add: handleMcpNotification_def split: option.split)

lemma notify_length:
  "length (controllers (snd (handleMcpNotification m p st))) = length (controllers st)"
  by (simp add: handleMcpNotification_def split: option.split)

lemma update_keeps_flag: "a < length xs \<Longrightarrow> xs ! a \<Longrightarrow> (xs[i := True]) ! a"
  by (cases "i = a") simp_all

lemma notify_keeps_abort:
  "signal_aborted st a \<Longrightarrow> signal_aborted (snd (handleMcpNotification m p st)) a"
  by (auto simp: handleMcpNotification_def signal_aborted_def update_keeps_flag
      split: option.split)

lemma deliver_registry: "cancellationRegistry (deliver st ns) = cancellationRegistry st"
  unfolding deliver_def by (induction ns arbitrary: st) (simp_all add: notify_registry)

lemma deliver_length: "length (controllers (deliver st ns)) = length (controllers st)"
  unfolding deliver_def by (induction ns arbitrary: st) (simp_all add: notify_length)

lemma deliver_keeps_abort: "signal_aborted st a \<Longrightarrow> signal_aborted (deliver st ns) a"
  unfolding deliver_def by (induction ns arbitrary: st) (simp_all add: notify_keeps_abort)

lemma deliver_append: "deliver st (xs @ ys) = deliver (deliver st xs) ys"
  by (simp add: deliver_def)

lemma deliver_Cons:
  "deliver st (n # ns) = deliver (snd (handleMcpNotification (n_method n) (n_params n) st)) ns"
  by (simp add: deliver_def)

lemma cancel_aborts:
  assumes "cancels rid n" "cancellationRegistry st = Some reg" "jm_get reg rid = Some a"
    "a < length (controllers st)"
  shows "signal_aborted (snd (handleMcpNotification (n_method n) (n_params n) st)) a"
proof -
  from assms(1) obtain p where "n_method n = ''notifications/cancelled''" "n_params n = Some p"
      "np_requestId p = Some rid"
    by (auto simp: cancels_def split: option.splits)
  with assms(2-4) show ?thesis
    by (simp add: handleMcpNotification_def signal_aborted_def)
qed

text \<open>
  A cancellation of the request id that is delivered while the handler runs sets the
  abort signal of the call, when the context has a registry.
\<close>

lemma cancel_during_aborts:
  assumes reg: "cancellationRegistry st \<noteq> None" and mem: "n \<in> set during"
    and c: "cancels rid n"
  shows "signal_at_end st (Some rid) during"
proof -
  from reg obtain reg0 where r0: "cancellationRegistry st = Some reg0" by auto
  let ?a = "length (controllers st)"
  let ?st1 = "install st (Some rid)"
  have r1: "cancellationRegistry ?st1 = Some (jm_set rid ?a reg0)"
    by (simp add: install_def r0)
  have l1: "length (controllers ?st1) = Suc ?a" by (simp add: install_def)
  from mem obtain xs ys where sp: "during = xs @ n # ys"
    by (auto simp: in_set_conv_decomp)
  let ?st2 = "deliver ?st1 xs"
  have r2: "cancellationRegistry ?st2 = Some (jm_set rid ?a reg0)"
    by (simp add: deliver_registry r1)
  have l2: "?a < length (controllers ?st2)" by (simp add: deliver_length l1)
  have g: "jm_get (jm_set rid ?a reg0) rid = Some ?a" by (simp add: jm_get_jm_set)
  from cancel_aborts [OF c r2 g l2]
  have "signal_aborted (deliver ?st1 (xs @ [n])) ?a"
    by (simp add: deliver_append deliver_Cons deliver_def)
  then have "signal_aborted (deliver (deliver ?st1 (xs @ [n])) ys) ?a"
    by (rule deliver_keeps_abort)
  then show ?thesis
    by (simp add: signal_at_end_def sp deliver_append deliver_Cons deliver_def)
qed

text \<open>A cancellation of a request id that is not registered is accepted and changes nothing.\<close>

lemma cancel_unregistered:
  assumes "cancels rid n"
    and "case cancellationRegistry st of None \<Rightarrow> True | Some reg \<Rightarrow> jm_get reg rid = None"
  shows "handleMcpNotification (n_method n) (n_params n) st = (True, st)"
proof -
  from assms(1) obtain p where "n_method n = ''notifications/cancelled''" "n_params n = Some p"
      "np_requestId p = Some rid"
    by (auto simp: cancels_def split: option.splits)
  with assms(2) show ?thesis
    by (simp add: handleMcpNotification_def split: option.splits)
qed

text \<open>When the call returns, the entry of its request id has left the registry.\<close>

lemma call_uninstalls:
  "case cancellationRegistry (snd (handleToolsCall tools params (Some rid) st during)) of
     None \<Rightarrow> True
   | Some reg \<Rightarrow> jm_get reg rid = None"
  by (simp add: handleToolsCall_def Let_def uninstall_def deliver_registry jm_get_jm_delete
      split: option.split)

text \<open>
  The outcome of a call whose tool is registered and whose arguments parse: a handler
  that resolves gives its result, cancelled or not; a handler that rejects after the
  signal fired gives the tool result \<open>Operation was cancelled\<close>.
\<close>

lemma call_resolves:
  assumes "getSharedTool tools nm = Some tool"
    and "t_safeParse tool (if json_truthy args then args else JObj []) = Inr d"
    and "t_handler tool d (signal_at_end st rid during) = Resolves r"
    and "\<not> (t_outputSchema tool \<and> \<not> isError r \<and> structuredContent r = None)"
  shows "fst (handleToolsCall tools (Some \<lparr>tc_name = Some nm, tc_arguments = Some args\<rparr>)
                rid st during) = Inr r"
proof -
  have fresh: "\<not> signal_aborted (install st rid) (length (controllers st))"
    by (simp add: signal_aborted_def install_def)
  have nm: "or_else (Some nm) [] = nm" by (simp add: or_else_def)
  show ?thesis
    using assms fresh
    by (auto simp: handleToolsCall_def Let_def nm executeSharedTool_def after_handler_def
        signal_at_end_def)
qed

lemma rejected_after_cancel:
  assumes "getSharedTool tools nm = Some tool"
    and "t_safeParse tool (if json_truthy args then args else JObj []) = Inr d"
    and "t_handler tool d (signal_at_end st rid during) = Rejects m"
    and "signal_at_end st rid during"
  shows "fst (handleToolsCall tools (Some \<lparr>tc_name = Some nm, tc_arguments = Some args\<rparr>)
                rid st during) = Inr (text_error ''Operation was cancelled'')"
proof -
  have fresh: "\<not> signal_aborted (install st rid) (length (controllers st))"
    by (simp add: signal_aborted_def install_def)
  have nm: "or_else (Some nm) [] = nm" by (simp add: or_else_def)
  show ?thesis
    using assms fresh
    by (auto simp: handleToolsCall_def Let_def nm executeSharedTool_def after_handler_def
        signal_at_end_def)
qed

text \<open>
  \<open>executeSharedTool\<close> catches every exception of the handler, so it always returns a
  tool result. The \<open>catch\<close> clause of \<open>handleToolsCall\<close>, which builds the error
  \<open>Request was cancelled\<close>, is therefore never entered: no call returns that error.
\<close>

lemma executeSharedTool_returns: "\<exists>r. executeSharedTool tools nm args b1 b2 = Inr r"
  by (simp add: executeSharedTool_def after_handler_def
      split: option.split sum.split tool_outcome.split)

lemma cancelled_error_unreachable:
  "fst (handleToolsCall tools params rid st during) \<noteq> Inl cancelled_error"
proof -
  obtain r where "executeSharedTool tools
      (or_else (case params of None \<Rightarrow> None | Some p \<Rightarrow> tc_name p) [])
      (case (case params of None \<Rightarrow> None | Some p \<Rightarrow> tc_arguments p) of
         None \<Rightarrow> JObj []
       | Some a \<Rightarrow> if json_truthy a then a else JObj [])
      (signal_aborted (install st rid) (length (controllers st)))
      (signal_aborted (deliver (install st rid) during) (length (controllers st))) = Inr r"
    using executeSharedTool_returns by blast
  then show ?thesis by (simp add: handleToolsCall_def Let_def)
qed

text \<open>The example tools, evaluated.\<close>

lemma tools_found:
  "getSharedTool [slow_tool, sleep_tool] ''slow'' = Some slow_tool"
  "getSharedTool [slow_tool, sleep_tool] ''sleep'' = Some sleep_tool"
  by (simp_all add: getSharedTool_def slow_tool_def sleep_tool_def)

lemma tool_fields:
  "t_outputSchema slow_tool = False" "t_safeParse slow_tool a = Inr a"
  "t_handler slow_tool a b = Resolves done_result"
  "t_outputSchema sleep_tool = False" "t_safeParse sleep_tool a = Inr a"
  "t_handler sleep_tool a b = (if b then Rejects ''This operation was aborted''
                              else Resolves done_result)"
  by (simp_all add: slow_tool_def sleep_tool_def)


text \<open>A handler that ignores the signal: request 7 is cancelled while it runs and succeeds.\<close>

lemma resolved_after_cancel_example:
  "handleToolsCall [slow_tool, sleep_tool] (Some slow_call) (Some (IdNum 7)) idle_state
     [cancel_of (IdNum 7)] =
     (Inr done_result,
      \<lparr>ds_session = None, controllers = [True], cancellationRegistry = Some []\<rparr>)"
  by (simp add: handleToolsCall_def Let_def install_def uninstall_def deliver_def
      handleMcpNotification_def cancel_of_def signal_aborted_def idle_state_def slow_call_def
      or_else_def executeSharedTool_def tools_found after_handler_def tool_fields jm_get_def
      jm_delete_def)


end
